theory Spec2Isabelle
  imports Main "HOL-Library.Sublist"
begin

section \<open>Errors and text\<close>

text \<open>
  \<^verbatim>\<open>ErrorHandler.BUILD_ERROR_CODES\<close> of \<^verbatim>\<open>utils/errorHandler.js\<close>. The spec's error
  kinds are these codes: ValidationError is \<open>VALIDATION_ERROR\<close>, BuildFailed is
  \<open>BUILD_FAILED\<close>, UploadFailed is \<open>UPLOAD_FAILED\<close>.
\<close>

datatype error_code =
  INIT_FAILED | BUILD_FAILED | UPLOAD_FAILED | KAFKA_ERROR | S3_ERROR
  | CLICKHOUSE_ERROR | VALIDATION_ERROR | UNKNOWN_ERROR

text \<open>The \<^verbatim>\<open>details\<close> objects the source attaches to a \<^verbatim>\<open>BuildError\<close>.\<close>

datatype details =
  NoDetails
  | MissingVars "string list"
  | OriginalError string
  | ExitDetails "nat option" string
  | TimeoutDetails bool

text \<open>
  A thrown value: a \<^verbatim>\<open>BuildError(message, code, details)\<close> or a plain
  \<^verbatim>\<open>Error(message)\<close> (also what a collaborator's client rejects with).
\<close>

datatype js_error = BuildError string error_code details | Error string

fun message :: "js_error \<Rightarrow> string" where
  "message (BuildError m c d) = m"
| "message (Error m) = m"

text \<open>\<^verbatim>\<open>Array.prototype.join\<close> on strings.\<close>

fun join :: "string \<Rightarrow> string list \<Rightarrow> string" where
  "join sep [] = []"
| "join sep [x] = x"
| "join sep (x # y # ys) = x @ sep @ join sep (y # ys)"

text \<open>A non-negative integer in a template literal: its decimal digits.\<close>

definition digit_char :: "nat \<Rightarrow> char" where
  "digit_char d = ''0123456789'' ! d"

fun string_of_nat :: "nat \<Rightarrow> string" where
  "string_of_nat n =
     (if n < 10 then [digit_char n]
      else string_of_nat (n div 10) @ [digit_char (n mod 10)])"

declare string_of_nat.simps [simp del]

section \<open>Configuration (config/config.js, ErrorHandler.validateEnvironment)\<close>

text \<open>
  \<^verbatim>\<open>process.env\<close> as it stands once \<^verbatim>\<open>dotenv.config\<close> has run: a variable is
  absent (\<open>None\<close>) or holds a string. \<^verbatim>\<open>!process.env[v]\<close> is true for an absent
  variable and for the empty string.
\<close>

type_synonym env = "string \<rightharpoonup> string"

definition truthy :: "string option \<Rightarrow> bool" where
  "truthy v = (case v of None \<Rightarrow> False | Some s \<Rightarrow> s \<noteq> [])"

text \<open>
  The \<^verbatim>\<open>config\<close> object literal, by dotted path, as
  \<^verbatim>\<open>field.split('.').reduce((obj, key) => obj?.[key], config)\<close> reads it; a path
  that names no field reads \<^verbatim>\<open>undefined\<close>.
\<close>

definition config_field :: "env \<Rightarrow> string \<Rightarrow> string option" where
  "config_field e field =
     (if field = ''aws.region'' then e ''AWS_REGION''
      else if field = ''aws.accessKeyId'' then e ''AWS_ACCESS_KEY_ID''
      else if field = ''aws.secretAccessKey'' then e ''AWS_SECRET_ACCESS_KEY''
      else if field = ''aws.s3BucketName'' then e ''S3_BUCKET_NAME''
      else if field = ''kafka.clientId'' then e ''KAFKA_CLIENT_ID''
      else if field = ''kafka.broker'' then e ''KAFKA_BROKER''
      else if field = ''kafka.sasl.username'' then e ''SASL_USERNAME''
      else if field = ''kafka.sasl.password'' then e ''SASL_PASSWORD''
      else if field = ''kafka.sasl.mechanism'' then e ''SASL_MECHANISM''
      else if field = ''clickhouse.host'' then e ''CLICKHOUSE_HOST''
      else if field = ''clickhouse.database'' then e ''CLICKHOUSE_DB''
      else if field = ''clickhouse.username'' then e ''CLICKHOUSE_USER''
      else if field = ''clickhouse.password'' then e ''CLICKHOUSE_PASSWORD''
      else if field = ''project.uri'' then e ''PROJECT_URI''
      else if field = ''project.deploymentId'' then e ''DEPLOYMENT_ID''
      else if field = ''project.installCommand'' then e ''PROJECT_INSTALL_COMMAND''
      else if field = ''project.buildCommand'' then e ''PROJECT_BUILD_COMMAND''
      else if field = ''project.rootDir'' then e ''PROJECT_ROOT_DIR''
      else None)"

definition requiredFields :: "string list" where
  "requiredFields =
     [''aws.region'', ''aws.accessKeyId'', ''aws.secretAccessKey'', ''aws.s3BucketName'',
      ''project.uri'', ''project.deploymentId'', ''project.installCommand'',
      ''project.buildCommand'']"

text \<open>The loop of \<^verbatim>\<open>validateConfig\<close>: it throws at the first field without a value.\<close>

fun check_fields :: "env \<Rightarrow> string list \<Rightarrow> js_error + unit" where
  "check_fields e [] = Inr ()"
| "check_fields e (field # rest) =
     (if \<not> truthy (config_field e field)
      then Inl (Error (''Missing required configuration: '' @ field))
      else check_fields e rest)"

definition validateConfig :: "env \<Rightarrow> js_error + unit" where
  "validateConfig e = check_fields e requiredFields"

text \<open>\<^verbatim>\<open>ErrorHandler.validateEnvironment(requiredVars)\<close>.\<close>

definition validateEnvironment :: "string list \<Rightarrow> env \<Rightarrow> js_error + unit" where
  "validateEnvironment requiredVars e =
     (let missingVars = filter (\<lambda>varName. \<not> truthy (e varName)) requiredVars
      in if length missingVars > 0
         then Inl (BuildError
                (''Missing required environment variables: '' @ join '', '' missingVars)
                VALIDATION_ERROR (MissingVars missingVars))
         else Inr ())"

text \<open>The list \<^verbatim>\<open>initialize()\<close> passes to \<^verbatim>\<open>validateEnvironment\<close>.\<close>

definition initialize_requiredVars :: "string list" where
  "initialize_requiredVars =
     [''PROJECT_URI'', ''DEPLOYMENT_ID'', ''PROJECT_INSTALL_COMMAND'',
      ''PROJECT_BUILD_COMMAND'', ''PROJECT_ROOT_DIR'']"

text \<open>
  The first statement of the \<^verbatim>\<open>try\<close> block of \<^verbatim>\<open>initialize()\<close>: the error it
  hands to its \<^verbatim>\<open>catch\<close> (which logs it, runs cleanup and exits with code 1).
\<close>

definition initialize_validation :: "env \<Rightarrow> js_error + unit" where
  "initialize_validation e = validateEnvironment initialize_requiredVars e"

text \<open>
  Start-up of \<^verbatim>\<open>server.js\<close> as far as validation goes. Line 4 requires
  \<^verbatim>\<open>./config/config\<close>, whose module body runs \<^verbatim>\<open>validateConfig()\<close>; a throw there
  ends the process before \<^verbatim>\<open>buildServer.initialize()\<close> (line 303) is reached.
\<close>

definition server_startup :: "env \<Rightarrow> js_error + unit" where
  "server_startup e =
     (case validateConfig e of
        Inl err \<Rightarrow> Inl err
      | Inr u \<Rightarrow> initialize_validation e)"

section \<open>Process state, collaborators and their outcomes\<close>

text \<open>
  The job's identity as the validated \<^verbatim>\<open>config\<close> object gives it:
  \<^verbatim>\<open>config.project.uri\<close>, \<^verbatim>\<open>config.project.deploymentId\<close>,
  \<^verbatim>\<open>config.aws.s3BucketName\<close>, and \<^verbatim>\<open>this.outputDir\<close>.
\<close>

record job =
  projectUri :: string
  deploymentId :: string
  s3BucketName :: string
  outputDir :: string

text \<open>A row handed to \<^verbatim>\<open>client.insert\<close> for table \<^verbatim>\<open>build_metrics\<close>.\<close>

record metrics_row =
  m_deployment_id :: string
  m_project_uri :: string
  m_start_time :: "int option"
  m_end_time :: int
  m_duration_seconds :: int
  m_status :: string
  m_error_message :: string

text \<open>
  What the process does to the outside, in the order it does it. A row of
  \<^verbatim>\<open>log_events\<close> is kept without its random \<^verbatim>\<open>event_id\<close> and its
  \<^verbatim>\<open>timestamp\<close>.
\<close>

datatype effect =
  Kill
  | InsertLog string string string
  | InsertMetrics metrics_row
  | KafkaDisconnect
  | ClickhouseClose
  | RmOutputDir
  | LogInfo string
  | LogError string string

text \<open>
  Where the one cleanup call that passed the latch stands: not started, suspended at
  \<^verbatim>\<open>await clickhouseService.recordBuildMetrics(...)\<close> (with the values of
  \<^verbatim>\<open>status\<close>, \<^verbatim>\<open>errorMessage\<close> and \<^verbatim>\<open>buildEndTime\<close> it computed), suspended at
  \<^verbatim>\<open>await ErrorHandler.gracefulShutdown(...)\<close>, or returned; \<open>Returned (Some e)\<close>
  would be a cleanup whose promise rejects with \<open>e\<close>.
\<close>

datatype cleanup_pc =
  Idle
  | AwaitMetrics string string int
  | AwaitShutdown
  | Returned "js_error option"

text \<open>
  The mutable state the shutdown path reads and writes: the fields of
  \<^verbatim>\<open>BuildServer\<close> (\<open>buildProcess\<close> is \<open>None\<close> for \<^verbatim>\<open>null\<close>, else the handle's
  \<^verbatim>\<open>killed\<close> flag), \<^verbatim>\<open>clickhouseService.isConnected\<close>, whether
  \<^verbatim>\<open>kafkaService.producer\<close> is set, whether the output directory exists, the
  effects so far, and the code given to \<^verbatim>\<open>process.exit\<close>.
\<close>

record state =
  isExiting :: bool
  buildStartTime :: "int option"
  buildProcess :: "bool option"
  isConnected :: bool
  producer :: bool
  outputDirExists :: bool
  teardown :: cleanup_pc
  effects :: "effect list"
  exitCode :: "nat option"

text \<open>
  What the collaborators and the runtime answer: \<open>Some e\<close> when
  \<^verbatim>\<open>client.insert\<close>, \<^verbatim>\<open>producer.disconnect\<close>, \<^verbatim>\<open>client.close\<close>,
  \<^verbatim>\<open>fs.rmSync\<close> or \<^verbatim>\<open>crypto.randomUUID()\<close> fails with \<open>e\<close>. The last one throws
  a \<^verbatim>\<open>ReferenceError\<close> on a Node whose modules have no global \<^verbatim>\<open>crypto\<close>, as that
  of the image the Dockerfile names.
\<close>

record outcomes =
  insert_fails :: "js_error option"
  kafka_disconnect_fails :: "js_error option"
  close_fails :: "js_error option"
  rm_fails :: "js_error option"
  uuid_fails :: "js_error option"

text \<open>
  An asynchronous call run to completion: the error its promise rejects with, if any,
  and the state it leaves.
\<close>

type_synonym action = "state \<Rightarrow> js_error option \<times> state"

definition emit :: "effect \<Rightarrow> state \<Rightarrow> state" where
  "emit x s = s\<lparr>effects := effects s @ [x]\<rparr>"

text \<open>\<^verbatim>\<open>logger.info(m)\<close> and \<^verbatim>\<open>logger.error(m, err)\<close>: console writes, which never throw.\<close>

definition logger_info :: "string \<Rightarrow> state \<Rightarrow> state" where
  "logger_info m s = emit (LogInfo m) s"

definition logger_error :: "string \<Rightarrow> js_error \<Rightarrow> state \<Rightarrow> state" where
  "logger_error m err s = emit (LogError m (message err)) s"

section \<open>ClickHouse service (services/clickhouseService.js)\<close>

definition not_connected :: js_error where
  "not_connected = BuildError ''ClickHouse client not connected'' CLICKHOUSE_ERROR NoDetails"

text \<open>
  \<^verbatim>\<open>insertBuildLog(deploymentId, log, level)\<close>; the callers that omit \<^verbatim>\<open>level\<close> get
  \<^verbatim>\<open>'INFO'\<close>. The row is built inside the \<^verbatim>\<open>try\<close> block, before
  \<^verbatim>\<open>client.insert\<close> is called: when \<^verbatim>\<open>crypto.randomUUID()\<close> throws, nothing is
  inserted and the \<^verbatim>\<open>catch\<close> logs that error.
\<close>

definition insertBuildLog :: "outcomes \<Rightarrow> string \<Rightarrow> string \<Rightarrow> string \<Rightarrow> action" where
  "insertBuildLog w dep log level s =
     (if \<not> isConnected s then (Some not_connected, s)
      else
        (case uuid_fails w of
           Some err \<Rightarrow> (None, logger_error ''Failed to insert build log:'' err s)
         | None \<Rightarrow>
             let s1 = emit (InsertLog dep log level) s
             in (case insert_fails w of
                   None \<Rightarrow> (None, s1)
                 | Some err \<Rightarrow> (None, logger_error ''Failed to insert build log:'' err s1))))"

text \<open>
  \<^verbatim>\<open>recordBuildMetrics(deploymentId, projectUri, startTime, endTime, status, errorMessage)\<close>.
  \<^verbatim>\<open>endTime - startTime\<close> reads a \<^verbatim>\<open>null\<close> start time as 0; \<^verbatim>\<open>Math.floor\<close> of the
  quotient is \<open>div\<close> on \<open>int\<close>.
\<close>

definition recordBuildMetrics ::
  "outcomes \<Rightarrow> string \<Rightarrow> string \<Rightarrow> int option \<Rightarrow> int \<Rightarrow> string \<Rightarrow> string \<Rightarrow> action" where
  "recordBuildMetrics w dep puri startTime endTime status errorMessage s =
     (if \<not> isConnected s then (Some not_connected, s)
      else
        let durationSeconds = (endTime - (case startTime of None \<Rightarrow> 0 | Some t \<Rightarrow> t)) div 1000;
            s1 = emit (InsertMetrics
                   \<lparr>m_deployment_id = dep, m_project_uri = puri, m_start_time = startTime,
                    m_end_time = endTime, m_duration_seconds = durationSeconds,
                    m_status = status, m_error_message = errorMessage\<rparr>) s
        in (case insert_fails w of
              None \<Rightarrow> (None, s1)
            | Some err \<Rightarrow> (None, logger_error ''Failed to record build metrics:'' err s1)))"

text \<open>\<^verbatim>\<open>clickhouseService.disconnect()\<close>: its own try/catch logs a failing close.\<close>

definition clickhouse_disconnect :: "outcomes \<Rightarrow> action" where
  "clickhouse_disconnect w s =
     (if isConnected s then
        let s1 = emit ClickhouseClose s
        in (case close_fails w of
              None \<Rightarrow> (None, logger_info ''ClickHouse connection closed'' (s1\<lparr>isConnected := False\<rparr>))
            | Some err \<Rightarrow> (None, logger_error ''Error disconnecting from ClickHouse:'' err s1))
      else (None, s))"

text \<open>\<^verbatim>\<open>kafkaService.disconnect()\<close>: no try/catch, a failing disconnect rejects.\<close>

definition kafka_disconnect :: "outcomes \<Rightarrow> action" where
  "kafka_disconnect w s =
     (if producer s then (kafka_disconnect_fails w, emit KafkaDisconnect s)
      else (None, s))"

text \<open>The \<^verbatim>\<open>cleanup\<close> closure that \<^verbatim>\<open>BuildServer.cleanup\<close> hands to gracefulShutdown.\<close>

definition remove_output :: "outcomes \<Rightarrow> action" where
  "remove_output w s =
     (if outputDirExists s then
        (case rm_fails w of
           None \<Rightarrow> (None, (emit RmOutputDir s)\<lparr>outputDirExists := False\<rparr>)
         | Some err \<Rightarrow> (Some err, emit RmOutputDir s))
      else (None, s))"

section \<open>Shutdown (ErrorHandler.gracefulShutdown, BuildServer.cleanup, setupCleanup)\<close>

text \<open>\<^verbatim>\<open>p.catch(err => logger.error(label, err))\<close>: the promise that results never rejects.\<close>

definition caught :: "string \<Rightarrow> action \<Rightarrow> state \<Rightarrow> state" where
  "caught label act s =
     (case act s of
        (None, s') \<Rightarrow> s'
      | (Some err, s') \<Rightarrow> logger_error label err s')"

text \<open>
  \<^verbatim>\<open>gracefulShutdown(services, logger)\<close>, a service being \<open>None\<close> when its field of
  \<^verbatim>\<open>services\<close> is not set. The three calls are started in this order and
  \<^verbatim>\<open>Promise.allSettled\<close> waits for all of them; each is run to completion here in
  the order it is started, and they write different fields of the state.
  \<^verbatim>\<open>allSettled\<close> never rejects, so the \<^verbatim>\<open>catch\<close> around it is not reached.
\<close>

definition gracefulShutdown :: "action option \<Rightarrow> action option \<Rightarrow> action option \<Rightarrow> action" where
  "gracefulShutdown kafka clickhouse cleanup_fn s =
     (let s1 = logger_info ''Starting graceful shutdown...'' s;
          s2 = (case kafka of None \<Rightarrow> s1
                | Some a \<Rightarrow> caught ''Error disconnecting Kafka:'' a s1);
          s3 = (case clickhouse of None \<Rightarrow> s2
                | Some a \<Rightarrow> caught ''Error disconnecting ClickHouse:'' a s2);
          s4 = (case cleanup_fn of None \<Rightarrow> s3
                | Some a \<Rightarrow> caught ''Error during cleanup:'' a s3)
      in (None, logger_info ''Graceful shutdown completed'' s4))"

text \<open>
  \<^verbatim>\<open>cleanup(error = null)\<close> from its call to its first \<^verbatim>\<open>await\<close>: the latch, the
  end time (\<open>now\<close> is what \<^verbatim>\<open>new Date()\<close> reads), \<^verbatim>\<open>status\<close> and
  \<^verbatim>\<open>errorMessage\<close>, and the kill of a process that is not yet killed. A call that
  finds the latch set returns at once. \<^verbatim>\<open>kill()\<close> with its default signal returns a
  boolean and is taken to have sent the signal.
\<close>

definition cleanup_call :: "int \<Rightarrow> js_error option \<Rightarrow> state \<Rightarrow> state" where
  "cleanup_call now error s =
     (if isExiting s then s
      else
        let s1 = s\<lparr>isExiting := True\<rparr>;
            status = (case error of None \<Rightarrow> ''SUCCESS'' | Some err \<Rightarrow> ''FAILED'');
            errorMessage = (case error of None \<Rightarrow> [] | Some err \<Rightarrow> message err);
            s2 = (case buildProcess s1 of
                    Some False \<Rightarrow> (emit Kill s1)\<lparr>buildProcess := Some True\<rparr>
                  | _ \<Rightarrow> s1)
        in s2\<lparr>teardown := AwaitMetrics status errorMessage now\<rparr>)"

text \<open>
  The suspended cleanup resumed by the event loop: from the first \<^verbatim>\<open>await\<close> to the
  second, and from the second to the return. The \<^verbatim>\<open>catch (cleanupError)\<close> of
  \<^verbatim>\<open>cleanup\<close> logs whatever the \<^verbatim>\<open>try\<close> block throws and returns normally.
\<close>

definition cleanup_resume :: "outcomes \<Rightarrow> job \<Rightarrow> state \<Rightarrow> state" where
  "cleanup_resume w j s =
     (case teardown s of
        AwaitMetrics status errorMessage buildEndTime \<Rightarrow>
          (case recordBuildMetrics w (deploymentId j) (projectUri j) (buildStartTime s)
                  buildEndTime status errorMessage s of
             (Some cleanupError, s') \<Rightarrow>
               (logger_error ''Cleanup failed:'' cleanupError s')\<lparr>teardown := Returned None\<rparr>
           | (None, s') \<Rightarrow> s'\<lparr>teardown := AwaitShutdown\<rparr>)
      | AwaitShutdown \<Rightarrow>
          (case gracefulShutdown (Some (kafka_disconnect w)) (Some (clickhouse_disconnect w))
                  (Some (remove_output w)) s of
             (Some cleanupError, s') \<Rightarrow>
               (logger_error ''Cleanup failed:'' cleanupError s')\<lparr>teardown := Returned None\<rparr>
           | (None, s') \<Rightarrow> s'\<lparr>teardown := Returned None\<rparr>)
      | Idle \<Rightarrow> s
      | Returned r \<Rightarrow> s)"

text \<open>
  \<^verbatim>\<open>await this.cleanup(error)\<close> with nothing else scheduled in between: the call
  that passes the latch runs both resumptions; a call that finds the latch set is
  over at once, whatever the first call is waiting for.
\<close>

definition cleanup :: "outcomes \<Rightarrow> job \<Rightarrow> int \<Rightarrow> js_error option \<Rightarrow> state \<Rightarrow> state" where
  "cleanup w j now error s =
     (if isExiting s then s
      else cleanup_resume w j (cleanup_resume w j (cleanup_call now error s)))"

text \<open>
  The places of \<^verbatim>\<open>server.js\<close> that call \<^verbatim>\<open>cleanup\<close>. Each is
  \<^verbatim>\<open>await this.cleanup(...)\<close> followed by \<^verbatim>\<open>process.exit(code)\<close>: the end of
  \<^verbatim>\<open>runBuild\<close> (lines 71-72: no error, code 0), a \<^verbatim>\<open>catch\<close> block (lines 40-41 and
  83-84: the error caught, code 1), and the four handlers of \<^verbatim>\<open>setupCleanup\<close> (the
  signals: no error, code 0; the other two: the error, code 1). A handler writes a
  console line before it calls \<^verbatim>\<open>cleanup\<close>.
\<close>

datatype trigger =
  SIGTERM | SIGINT | UncaughtException js_error | UnhandledRejection js_error

datatype call_site = BuildCompleted | CaughtError js_error | Handler trigger

fun site_error :: "call_site \<Rightarrow> js_error option" where
  "site_error BuildCompleted = None"
| "site_error (CaughtError err) = Some err"
| "site_error (Handler SIGTERM) = None"
| "site_error (Handler SIGINT) = None"
| "site_error (Handler (UncaughtException err)) = Some err"
| "site_error (Handler (UnhandledRejection err)) = Some err"

fun site_exit :: "call_site \<Rightarrow> nat" where
  "site_exit BuildCompleted = 0"
| "site_exit (CaughtError err) = 1"
| "site_exit (Handler SIGTERM) = 0"
| "site_exit (Handler SIGINT) = 0"
| "site_exit (Handler (UncaughtException err)) = 1"
| "site_exit (Handler (UnhandledRejection err)) = 1"

fun site_log :: "call_site \<Rightarrow> state \<Rightarrow> state" where
  "site_log BuildCompleted s = s"
| "site_log (CaughtError err) s = s"
| "site_log (Handler SIGTERM) s = logger_info ''Received SIGTERM'' s"
| "site_log (Handler SIGINT) s = logger_info ''Received SIGINT'' s"
| "site_log (Handler (UncaughtException err)) s = logger_error ''Uncaught exception:'' err s"
| "site_log (Handler (UnhandledRejection err)) s = logger_error ''Unhandled rejection:'' err s"

text \<open>
  The process: its state, and the code that the caller whose cleanup passed the latch
  will give to \<^verbatim>\<open>process.exit\<close> once that cleanup has returned.
\<close>

record process =
  server :: state
  exit_after :: "nat option"

text \<open>
  What the event loop runs while a job shuts down: a call site is reached (at a time
  \<open>now\<close>), or the suspended cleanup is resumed because what it awaits has settled.
\<close>

datatype loop_event = Called call_site int | Resumed

text \<open>
  One turn of the event loop. A process that has exited runs nothing. At a call
  site, a \<^verbatim>\<open>cleanup\<close> that finds the latch set returns at once and the
  \<^verbatim>\<open>process.exit\<close> behind it ends the process, whatever the first cleanup is still
  waiting for. A \<^verbatim>\<open>cleanup\<close> that passes the latch suspends at its first
  \<^verbatim>\<open>await\<close> when ClickHouse is connected; when it is not, the promise of
  \<^verbatim>\<open>recordBuildMetrics\<close> is rejected already, the \<^verbatim>\<open>catch\<close> runs in the same
  turn and the caller exits. When a resumption lets the suspended cleanup return, its
  caller exits with its own code. An awaited call is among the effects once the
  resumption behind it has run: a process that exits while the cleanup is suspended
  has not recorded the call it was waiting for.
\<close>

definition proc_step :: "outcomes \<Rightarrow> job \<Rightarrow> loop_event \<Rightarrow> process \<Rightarrow> process" where
  "proc_step w j ev p =
     (if exitCode (server p) \<noteq> None then p
      else
        (case ev of
           Called site now \<Rightarrow>
             (let s1 = site_log site (server p)
              in if isExiting s1
                 then p\<lparr>server := s1\<lparr>exitCode := Some (site_exit site)\<rparr>\<rparr>
                 else if isConnected s1
                 then p\<lparr>server := cleanup_call now (site_error site) s1,
                        exit_after := Some (site_exit site)\<rparr>
                 else p\<lparr>server := (cleanup w j now (site_error site) s1)
                                    \<lparr>exitCode := Some (site_exit site)\<rparr>,
                        exit_after := Some (site_exit site)\<rparr>)
         | Resumed \<Rightarrow>
             (case teardown (server p) of
                Idle \<Rightarrow> p
              | Returned r \<Rightarrow> p
              | AwaitMetrics status errorMessage buildEndTime \<Rightarrow>
                  (let s1 = cleanup_resume w j (server p)
                   in case teardown s1 of
                        Returned r \<Rightarrow> p\<lparr>server := s1\<lparr>exitCode := exit_after p\<rparr>\<rparr>
                      | _ \<Rightarrow> p\<lparr>server := s1\<rparr>)
              | AwaitShutdown \<Rightarrow>
                  (let s1 = cleanup_resume w j (server p)
                   in case teardown s1 of
                        Returned r \<Rightarrow> p\<lparr>server := s1\<lparr>exitCode := exit_after p\<rparr>\<rparr>
                      | _ \<Rightarrow> p\<lparr>server := s1\<rparr>))))"

fun proc_run :: "outcomes \<Rightarrow> job \<Rightarrow> loop_event list \<Rightarrow> process \<Rightarrow> process" where
  "proc_run w j [] p = p"
| "proc_run w j (ev # evs) p = proc_run w j evs (proc_step w j ev p)"

section \<open>Subprocess runner (BuildServer.executeBuildProcess)\<close>

text \<open>
  The promise an asynchronous call returns. Only a pending promise settles:
  \<^verbatim>\<open>resolve\<close> and \<^verbatim>\<open>reject\<close> on a settled one do nothing.
\<close>

datatype promise = Pending | Fulfilled | Rejected js_error

fun resolve :: "promise \<Rightarrow> promise" where
  "resolve Pending = Fulfilled"
| "resolve p = p"

fun reject :: "js_error \<Rightarrow> promise \<Rightarrow> promise" where
  "reject err Pending = Rejected err"
| "reject err p = p"

text \<open>A call to one of the two log sinks from a data handler.\<close>

datatype sink_call = PublishLog string | InsertBuildLog string string string

text \<open>
  The closure of \<^verbatim>\<open>executeBuildProcess\<close>: the two accumulators, the promise it
  returns, the timer of \<^verbatim>\<open>setTimeout\<close> (\<open>Some ms\<close> while it is armed), whether the
  timeout callback has called \<^verbatim>\<open>kill()\<close>, and the calls to the log sinks.
\<close>

record exec_state =
  buildOutput :: string
  buildErrors :: string
  outcome :: promise
  buildTimeout :: "nat option"
  killed :: bool
  forwarded :: "sink_call list"

text \<open>
  What the event loop delivers: a chunk on stdout or stderr, \<^verbatim>\<open>'close'\<close> with the
  exit code (\<open>None\<close> is \<^verbatim>\<open>null\<close>, a process ended by a signal), \<^verbatim>\<open>'error'\<close>
  with the error's message, or the expiry of the timer.
\<close>

datatype proc_event =
  StdoutData string
  | StderrData string
  | Close "nat option"
  | ProcError string
  | TimeoutFires

definition executeBuildProcess_start :: exec_state where
  "executeBuildProcess_start =
     \<lparr>buildOutput = [], buildErrors = [], outcome = Pending,
      buildTimeout = Some (30 * 60 * 1000), killed = False, forwarded = []\<rparr>"

text \<open>\<^verbatim>\<open>${code}\<close> in the message of the close handler.\<close>

definition show_code :: "nat option \<Rightarrow> string" where
  "show_code code = (case code of None \<Rightarrow> ''null'' | Some n \<Rightarrow> string_of_nat n)"

definition exit_error :: "nat option \<Rightarrow> string \<Rightarrow> js_error" where
  "exit_error code errs =
     BuildError (''Build process exited with code '' @ show_code code @ ''\<newline>'' @ errs)
       BUILD_FAILED (ExitDetails code errs)"

definition timeout_error :: js_error where
  "timeout_error = BuildError ''Build process timed out'' BUILD_FAILED (TimeoutDetails True)"

text \<open>
  One handler run. On \<^verbatim>\<open>'close'\<close> the two listeners run in the order they were
  registered: the one that settles the promise, then the one that clears the timer.
  A cleared or expired timer does not fire.
\<close>

fun exec_step :: "job \<Rightarrow> proc_event \<Rightarrow> exec_state \<Rightarrow> exec_state" where
  "exec_step j (StdoutData output) s =
     s\<lparr>buildOutput := buildOutput s @ output,
       forwarded := forwarded s @ [PublishLog output, InsertBuildLog (deploymentId j) output ''INFO'']\<rparr>"
| "exec_step j (StderrData err) s =
     s\<lparr>buildErrors := buildErrors s @ err,
       forwarded := forwarded s @ [PublishLog (''Error: '' @ err), InsertBuildLog (deploymentId j) err ''ERROR'']\<rparr>"
| "exec_step j (Close code) s =
     (let s1 = (if code = Some 0 then s\<lparr>outcome := resolve (outcome s)\<rparr>
                else s\<lparr>outcome := reject (exit_error code (buildErrors s)) (outcome s)\<rparr>)
      in s1\<lparr>buildTimeout := None\<rparr>)"
| "exec_step j (ProcError m) s =
     s\<lparr>outcome := reject
         (BuildError (''Failed to start build process: '' @ m) BUILD_FAILED (OriginalError m))
         (outcome s)\<rparr>"
| "exec_step j TimeoutFires s =
     (case buildTimeout s of
        None \<Rightarrow> s
      | Some ms \<Rightarrow>
          s\<lparr>killed := True, outcome := reject timeout_error (outcome s), buildTimeout := None\<rparr>)"

fun exec_run :: "job \<Rightarrow> proc_event list \<Rightarrow> exec_state \<Rightarrow> exec_state" where
  "exec_run j [] s = s"
| "exec_run j (ev # evs) s = exec_run j evs (exec_step j ev s)"

text \<open>The chunks a process writes before it closes.\<close>

fun is_data :: "proc_event \<Rightarrow> bool" where
  "is_data (StdoutData d) = True"
| "is_data (StderrData d) = True"
| "is_data ev = False"

fun stderr_text :: "proc_event list \<Rightarrow> string" where
  "stderr_text [] = []"
| "stderr_text (StderrData d # evs) = d @ stderr_text evs"
| "stderr_text (ev # evs) = stderr_text evs"

section \<open>Artifact upload (BuildServer.uploadArtifacts, S3Service.uploadFile)\<close>

text \<open>
  Paths. \<^verbatim>\<open>path.join(dir, file)\<close> for a normalised \<open>dir\<close> without a trailing
  separator and a relative \<open>file\<close> as \<^verbatim>\<open>readdirSync\<close> lists it (no \<^verbatim>\<open>.\<close> or
  \<^verbatim>\<open>..\<close> segment); \<^verbatim>\<open>path.basename\<close> of POSIX: trailing separators dropped, then
  what follows the last separator.
\<close>

definition path_join :: "string \<Rightarrow> string \<Rightarrow> string" where
  "path_join dir file = dir @ ''/'' @ file"

definition path_basename :: "string \<Rightarrow> string" where
  "path_basename p =
     (let q = dropWhile (\<lambda>c. c = CHR ''/'') (rev p)
      in rev (takeWhile (\<lambda>c. c \<noteq> CHR ''/'') q))"

text \<open>The argument of \<^verbatim>\<open>new PutObjectCommand\<close>; \<open>Body\<close> is the path the stream reads.\<close>

record put_object =
  Bucket :: string
  Key :: string
  Body :: string
  ContentType :: string

text \<open>
  \<^verbatim>\<open>mime.lookup(filePath) || 'application/octet-stream'\<close>. The table of the
  \<^verbatim>\<open>mime-types\<close> package is a parameter: \<open>None\<close> is its \<^verbatim>\<open>false\<close>.
\<close>

definition content_type :: "(string \<Rightarrow> string option) \<Rightarrow> string \<Rightarrow> string" where
  "content_type mime_lookup filePath =
     (case mime_lookup filePath of
        None \<Rightarrow> ''application/octet-stream''
      | Some t \<Rightarrow> if t = [] then ''application/octet-stream'' else t)"

text \<open>The command \<^verbatim>\<open>uploadFile(filePath, projectUri)\<close> sends.\<close>

definition uploadFile :: "job \<Rightarrow> (string \<Rightarrow> string option) \<Rightarrow> string \<Rightarrow> string \<Rightarrow> put_object" where
  "uploadFile j mime_lookup filePath puri =
     (let fileName = path_basename filePath
      in \<lparr>Bucket = s3BucketName j,
          Key = ''__outputs/'' @ puri @ ''/'' @ fileName,
          Body = filePath,
          ContentType = content_type mime_lookup filePath\<rparr>)"

text \<open>
  One upload task, the async arrow function of the loop: waiting for
  \<^verbatim>\<open>s3Service.uploadFile\<close>, waiting for \<^verbatim>\<open>kafkaService.publishLog\<close>, fulfilled, or
  rejected with the \<^verbatim>\<open>BuildError\<close> of its \<^verbatim>\<open>catch\<close>.
\<close>

datatype task_stage = Uploading | Publishing | Done | Failed js_error

text \<open>
  The closure of \<^verbatim>\<open>uploadArtifacts\<close>: per task its \<^verbatim>\<open>file\<close> and its stage, the
  shared counter, \<^verbatim>\<open>totalFiles\<close>, the commands sent to S3 and the lines given to
  \<^verbatim>\<open>publishLog\<close> in call order, and the promise of \<^verbatim>\<open>Promise.all(uploadPromises)\<close>.
\<close>

record upload_state =
  task_files :: "string list"
  stages :: "task_stage list"
  uploadedCount :: nat
  totalFiles :: nat
  s3_calls :: "put_object list"
  kafka_calls :: "string list"
  all_uploads :: promise

text \<open>An entry of \<^verbatim>\<open>readdirSync(distDir, {recursive: true})\<close> with what \<^verbatim>\<open>lstatSync(...).isDirectory()\<close> says of it.\<close>

type_synonym entry = "string \<times> bool"

text \<open>The \<^verbatim>\<open>for\<close> loop: a directory is skipped, any other entry starts a task.\<close>

fun upload_loop :: "job \<Rightarrow> (string \<Rightarrow> string option) \<Rightarrow> string \<Rightarrow> entry list \<Rightarrow> upload_state \<Rightarrow> upload_state" where
  "upload_loop j mime_lookup distDir [] s = s"
| "upload_loop j mime_lookup distDir ((file, isDirectory) # rest) s =
     (let filePath = path_join distDir file
      in if isDirectory then upload_loop j mime_lookup distDir rest s
         else upload_loop j mime_lookup distDir rest
                (s\<lparr>task_files := task_files s @ [file],
                   stages := stages s @ [Uploading],
                   s3_calls := s3_calls s @ [uploadFile j mime_lookup filePath (projectUri j)]\<rparr>))"

text \<open>\<^verbatim>\<open>Promise.all\<close> of the tasks as they stand: fulfilled once every task is.\<close>

definition all_done :: "task_stage list \<Rightarrow> bool" where
  "all_done sts = list_all (\<lambda>st. st = Done) sts"

text \<open>
  \<^verbatim>\<open>uploadArtifacts\<close> up to its \<^verbatim>\<open>await Promise.all(uploadPromises)\<close>; \<open>dist\<close> is
  \<open>None\<close> when \<^verbatim>\<open>distDir\<close> does not exist, else its recursive listing.
\<close>

definition uploadArtifacts :: "job \<Rightarrow> (string \<Rightarrow> string option) \<Rightarrow> entry list option \<Rightarrow> js_error + upload_state" where
  "uploadArtifacts j mime_lookup dist =
     (let distDir = path_join (outputDir j) ''dist''
      in case dist of
           None \<Rightarrow> Inl (BuildError ''Build directory not found'' BUILD_FAILED NoDetails)
         | Some files \<Rightarrow>
             let n = length (filter (\<lambda>(file, isDirectory). \<not> isDirectory) files);
                 s = upload_loop j mime_lookup distDir files
                       \<lparr>task_files = [], stages = [], uploadedCount = 0, totalFiles = n,
                        s3_calls = [], kafka_calls = [], all_uploads = Pending\<rparr>
             in Inr (s\<lparr>all_uploads := (if all_done (stages s) then Fulfilled else Pending)\<rparr>))"

definition progress_line :: "nat \<Rightarrow> nat \<Rightarrow> string" where
  "progress_line c n =
     ''Upload progress: '' @ string_of_nat c @ ''/'' @ string_of_nat n @ '' files''"

definition upload_failed :: "string \<Rightarrow> js_error \<Rightarrow> js_error" where
  "upload_failed file err =
     BuildError (''Failed to upload '' @ file) UPLOAD_FAILED (OriginalError (message err))"

text \<open>
  An awaited call of task \<open>i\<close> settles, with \<open>Some e\<close> when it rejects with \<open>e\<close>. An
  event for a task that is not waiting for that call is not delivered.
\<close>

datatype upload_event = S3Settled nat "js_error option" | PublishSettled nat "js_error option"

text \<open>A task rejects: its stage, and \<^verbatim>\<open>Promise.all\<close> rejects if it is still pending.\<close>

definition task_fails :: "nat \<Rightarrow> js_error \<Rightarrow> upload_state \<Rightarrow> upload_state" where
  "task_fails i err s =
     (let e = upload_failed (task_files s ! i) err
      in s\<lparr>stages := (stages s)[i := Failed e], all_uploads := reject e (all_uploads s)\<rparr>)"

text \<open>
  The continuation of a task after the call it awaits. After a successful upload the
  increment and the template literal run in one turn of the event loop.
\<close>

fun upload_step :: "upload_event \<Rightarrow> upload_state \<Rightarrow> upload_state" where
  "upload_step (S3Settled i r) s =
     (if i < length (stages s) \<and> stages s ! i = Uploading then
        (case r of
           None \<Rightarrow>
             let c = uploadedCount s + 1
             in s\<lparr>uploadedCount := c,
                  kafka_calls := kafka_calls s @ [progress_line c (totalFiles s)],
                  stages := (stages s)[i := Publishing]\<rparr>
         | Some err \<Rightarrow> task_fails i err s)
      else s)"
| "upload_step (PublishSettled i r) s =
     (if i < length (stages s) \<and> stages s ! i = Publishing then
        (case r of
           None \<Rightarrow>
             let sts = (stages s)[i := Done]
             in s\<lparr>stages := sts,
                  all_uploads := (if all_done sts then resolve (all_uploads s) else all_uploads s)\<rparr>
         | Some err \<Rightarrow> task_fails i err s)
      else s)"

fun upload_run :: "upload_event list \<Rightarrow> upload_state \<Rightarrow> upload_state" where
  "upload_run [] s = s"
| "upload_run (ev # evs) s = upload_run evs (upload_step ev s)"

text \<open>A task that is no longer waiting for anything.\<close>

fun settled :: "task_stage \<Rightarrow> bool" where
  "settled Done = True"
| "settled (Failed e) = True"
| "settled st = False"

fun is_rejected :: "promise \<Rightarrow> bool" where
  "is_rejected (Rejected e) = True"
| "is_rejected p = False"

section \<open>Concrete inputs\<close>

text \<open>A job, and the state of a process whose ClickHouse client never connected.\<close>

definition job1 :: job where
  "job1 = \<lparr>projectUri = ''p1'', deploymentId = ''d1'', s3BucketName = ''bucket'',
            outputDir = ''/app/output''\<rparr>"

definition disconnected_state :: state where
  "disconnected_state =
     \<lparr>isExiting = False, buildStartTime = None, buildProcess = None, isConnected = False,
      producer = False, outputDirExists = True, teardown = Idle, effects = [],
      exitCode = None\<rparr>"

definition no_failures :: outcomes where
  "no_failures =
     \<lparr>insert_fails = None, kafka_disconnect_fails = None, close_fails = None,
      rm_fails = None, uuid_fails = None\<rparr>"

definition failing_insert :: outcomes where
  "failing_insert =
     \<lparr>insert_fails = Some (Error ''socket hang up''), kafka_disconnect_fails = None,
      close_fails = None, rm_fails = None, uuid_fails = None\<rparr>"

definition no_crypto :: outcomes where
  "no_crypto =
     \<lparr>insert_fails = None, kafka_disconnect_fails = None, close_fails = None,
      rm_fails = None, uuid_fails = Some (Error ''crypto is not defined'')\<rparr>"

text \<open>Environments: one without the project URI and the deployment id, one without the root directory.\<close>

definition env_without_uri_and_id :: env where
  "env_without_uri_and_id =
     [''AWS_REGION'' \<mapsto> ''eu-west-1'', ''AWS_ACCESS_KEY_ID'' \<mapsto> ''key'',
      ''AWS_SECRET_ACCESS_KEY'' \<mapsto> ''secret'', ''S3_BUCKET_NAME'' \<mapsto> ''bucket'',
      ''PROJECT_INSTALL_COMMAND'' \<mapsto> ''npm install'',
      ''PROJECT_BUILD_COMMAND'' \<mapsto> ''npm run build'',
      ''PROJECT_ROOT_DIR'' \<mapsto> ''/app'']"

definition env_without_root :: env where
  "env_without_root =
     [''AWS_REGION'' \<mapsto> ''eu-west-1'', ''AWS_ACCESS_KEY_ID'' \<mapsto> ''key'',
      ''AWS_SECRET_ACCESS_KEY'' \<mapsto> ''secret'', ''S3_BUCKET_NAME'' \<mapsto> ''bucket'',
      ''PROJECT_URI'' \<mapsto> ''p1'', ''DEPLOYMENT_ID'' \<mapsto> ''d1'',
      ''PROJECT_INSTALL_COMMAND'' \<mapsto> ''npm install'',
      ''PROJECT_BUILD_COMMAND'' \<mapsto> ''npm run build'']"

text \<open>Output of a build: two chunks on stderr around one on stdout.\<close>

definition chunks1 :: "proc_event list" where
  "chunks1 = [StderrData ''warn: a'', StdoutData ''compiled'', StderrData ''err: b'']"

text \<open>
  A lookup that knows two extensions, a listing with one directory and three files,
  the state \<^verbatim>\<open>uploadArtifacts\<close> reaches on it, and an order in which the awaited
  calls settle.
\<close>

definition mime1 :: "string \<Rightarrow> string option" where
  "mime1 p =
     (if take 3 (rev p) = ''sj.'' then Some ''application/javascript''
      else if take 4 (rev p) = ''ssc.'' then Some ''text/css''
      else None)"

definition entries1 :: "entry list" where
  "entries1 =
     [(''a.js'', False), (''assets'', True), (''assets/b.css'', False), (''LICENSE'', False)]"

definition uploads1 :: upload_state where
  "uploads1 =
     \<lparr>task_files = [''a.js'', ''assets/b.css'', ''LICENSE''],
      stages = [Uploading, Uploading, Uploading],
      uploadedCount = 0, totalFiles = 3,
      s3_calls =
        [\<lparr>Bucket = ''bucket'', Key = ''__outputs/p1/a.js'',
           Body = ''/app/output/dist/a.js'', ContentType = ''application/javascript''\<rparr>,
         \<lparr>Bucket = ''bucket'', Key = ''__outputs/p1/b.css'',
           Body = ''/app/output/dist/assets/b.css'', ContentType = ''text/css''\<rparr>,
         \<lparr>Bucket = ''bucket'', Key = ''__outputs/p1/LICENSE'',
           Body = ''/app/output/dist/LICENSE'', ContentType = ''application/octet-stream''\<rparr>],
      kafka_calls = [], all_uploads = Pending\<rparr>"

definition schedule1 :: "upload_event list" where
  "schedule1 =
     [S3Settled 2 None, S3Settled 0 None, PublishSettled 0 None, S3Settled 1 None,
      PublishSettled 1 None, PublishSettled 2 None]"

section \<open>What holds of the upload tasks at every moment\<close>

text \<open>
  There are \<^verbatim>\<open>totalFiles\<close> tasks; the counter has counted no task that still
  uploads and every task that publishes or is done; \<^verbatim>\<open>Promise.all\<close> is fulfilled
  only when every task is; and the lines published so far are the progress lines
  from 1 to the counter.
\<close>

definition upload_inv :: "upload_state \<Rightarrow> bool" where
  "upload_inv s =
     (length (stages s) = totalFiles s
      \<and> uploadedCount s + length (filter (\<lambda>st. st = Uploading) (stages s)) \<le> totalFiles s
      \<and> length (filter (\<lambda>st. st = Publishing \<or> st = Done) (stages s)) \<le> uploadedCount s
      \<and> (all_uploads s = Fulfilled \<longrightarrow> all_done (stages s))
      \<and> kafka_calls s = map (\<lambda>c. progress_line c (totalFiles s)) [1..<Suc (uploadedCount s)])"

section \<open>Reading the effects\<close>

text \<open>
  The log line a failed call leaves, the metrics rows among the effects, and the
  effects that are teardown steps rather than console lines.
\<close>

definition logged :: "string \<Rightarrow> js_error option \<Rightarrow> effect list" where
  "logged label r = (case r of None \<Rightarrow> [] | Some err \<Rightarrow> [LogError label (message err)])"

fun metrics_of :: "effect list \<Rightarrow> metrics_row list" where
  "metrics_of [] = []"
| "metrics_of (InsertMetrics r # xs) = r # metrics_of xs"
| "metrics_of (x # xs) = metrics_of xs"

fun is_step :: "effect \<Rightarrow> bool" where
  "is_step Kill = True"
| "is_step (InsertMetrics r) = True"
| "is_step KafkaDisconnect = True"
| "is_step ClickhouseClose = True"
| "is_step RmOutputDir = True"
| "is_step x = False"

definition steps :: "effect list \<Rightarrow> effect list" where
  "steps xs = filter is_step xs"

text \<open>
  A job in the middle of its build, as a state and as a process, and collaborators
  that all fail during teardown.
\<close>

definition running_state :: state where
  "running_state =
     \<lparr>isExiting = False, buildStartTime = Some 1000, buildProcess = Some False,
      isConnected = True, producer = True, outputDirExists = True, teardown = Idle,
      effects = [], exitCode = None\<rparr>"

definition failing_disconnects :: outcomes where
  "failing_disconnects =
     \<lparr>insert_fails = Some (Error ''socket hang up''),
      kafka_disconnect_fails = Some (Error ''broker gone''),
      close_fails = Some (Error ''close failed''),
      rm_fails = Some (Error ''EBUSY''),
      uuid_fails = None\<rparr>"

definition running_process :: process where
  "running_process = \<lparr>server = running_state, exit_after = None\<rparr>"

section \<open>Configuration is validated twice\<close>

lemma check_fields_find:
  "check_fields e fs =
     (case find (\<lambda>field. \<not> truthy (config_field e field)) fs of
        Some field \<Rightarrow> Inl (Error (''Missing required configuration: '' @ field))
      | None \<Rightarrow> Inr ())"
  by (induction fs) auto

lemma sublist_join: "v \<in> set xs \<Longrightarrow> sublist v (join sep xs)"
proof (induction sep xs rule: join.induct)
  case (1 sep)
  then show ?case by simp
next
  case (2 sep x)
  then show ?case by simp
next
  case (3 sep x y ys)
  show ?case
  proof (cases "v = x")
    case True
    then show ?thesis by (simp add: sublist_append_rightI)
  next
    case False
    with 3 have "sublist v (join sep (y # ys))" by simp
    then obtain ps ss where "join sep (y # ys) = ps @ v @ ss"
      by (auto simp: sublist_def)
    then have "join sep (x # y # ys) = (x @ sep @ ps) @ v @ ss" by simp
    then show ?thesis unfolding sublist_def by blast
  qed
qed

text \<open>
  C2, as stated, fails on the program. With the project URI and the deployment id both
  absent, the process does not get to \<^verbatim>\<open>initialize()\<close>: loading the configuration
  module throws a plain \<^verbatim>\<open>Error\<close> that names \<^verbatim>\<open>project.uri\<close> alone.
\<close>

theorem startup_names_first_missing_only:
  "filter (\<lambda>v. \<not> truthy (env_without_uri_and_id v)) initialize_requiredVars
     = [''PROJECT_URI'', ''DEPLOYMENT_ID'']
   \<and> server_startup env_without_uri_and_id
     = Inl (Error ''Missing required configuration: project.uri'')"
  by (simp add: env_without_uri_and_id_def initialize_requiredVars_def truthy_def
      server_startup_def validateConfig_def requiredFields_def config_field_def)

text \<open>
  C2, amended. The check \<^verbatim>\<open>initialize()\<close> makes fails exactly when one of its five
  variables is missing, with a \<open>VALIDATION_ERROR\<close> whose message and details hold
  every missing variable, each name readable in the message. Start-up reaches that
  check only when \<^verbatim>\<open>validateConfig\<close> found its eight fields; otherwise it fails with
  a plain \<^verbatim>\<open>Error\<close> naming the first field without a value.
\<close>

theorem startup_validation:
  "initialize_validation e =
     (let missingVars = filter (\<lambda>v. \<not> truthy (e v)) initialize_requiredVars
      in if missingVars = [] then Inr ()
         else Inl (BuildError
                (''Missing required environment variables: '' @ join '', '' missingVars)
                VALIDATION_ERROR (MissingVars missingVars)))
   \<and> (\<forall>v \<in> set initialize_requiredVars. \<not> truthy (e v) \<longrightarrow>
         sublist v (join '', '' (filter (\<lambda>v. \<not> truthy (e v)) initialize_requiredVars)))
   \<and> server_startup e =
       (case find (\<lambda>field. \<not> truthy (config_field e field)) requiredFields of
          Some field \<Rightarrow> Inl (Error (''Missing required configuration: '' @ field))
        | None \<Rightarrow> initialize_validation e)"
proof (intro conjI)
  show "initialize_validation e =
     (let missingVars = filter (\<lambda>v. \<not> truthy (e v)) initialize_requiredVars
      in if missingVars = [] then Inr ()
         else Inl (BuildError
                (''Missing required environment variables: '' @ join '', '' missingVars)
                VALIDATION_ERROR (MissingVars missingVars)))"
    by (simp add: initialize_validation_def validateEnvironment_def Let_def)
  show "\<forall>v \<in> set initialize_requiredVars. \<not> truthy (e v) \<longrightarrow>
         sublist v (join '', '' (filter (\<lambda>v. \<not> truthy (e v)) initialize_requiredVars))"
    by (simp add: sublist_join)
  show "server_startup e =
       (case find (\<lambda>field. \<not> truthy (config_field e field)) requiredFields of
          Some field \<Rightarrow> Inl (Error (''Missing required configuration: '' @ field))
        | None \<Rightarrow> initialize_validation e)"
    by (simp add: server_startup_def validateConfig_def check_fields_find split: option.split)
qed

theorem startup_validation_witness:
  "initialize_validation env_without_uri_and_id =
     Inl (BuildError ''Missing required environment variables: PROJECT_URI, DEPLOYMENT_ID''
            VALIDATION_ERROR (MissingVars [''PROJECT_URI'', ''DEPLOYMENT_ID'']))
   \<and> sublist ''DEPLOYMENT_ID'' ''PROJECT_URI, DEPLOYMENT_ID''
   \<and> server_startup env_without_root =
     Inl (BuildError ''Missing required environment variables: PROJECT_ROOT_DIR''
            VALIDATION_ERROR (MissingVars [''PROJECT_ROOT_DIR'']))"
  using startup_validation [of env_without_uri_and_id] startup_validation [of env_without_root]
  by (simp add: env_without_uri_and_id_def env_without_root_def initialize_requiredVars_def
      truthy_def requiredFields_def config_field_def)

section \<open>The subprocess runner\<close>

lemma exec_run_append: "exec_run j (xs @ ys) s = exec_run j ys (exec_run j xs s)"
  by (induction xs arbitrary: s) auto

lemma exec_run_data:
  "list_all is_data chunks \<Longrightarrow>
     outcome (exec_run j chunks s) = outcome s
     \<and> buildTimeout (exec_run j chunks s) = buildTimeout s
     \<and> killed (exec_run j chunks s) = killed s
     \<and> buildErrors (exec_run j chunks s) = buildErrors s @ stderr_text chunks"
proof (induction chunks arbitrary: s)
  case Nil
  then show ?case by simp
next
  case (Cons ev evs)
  then show ?case by (cases ev) auto
qed

text \<open>
  C3. A process that writes its chunks and closes, before the timeout and with no
  \<^verbatim>\<open>'error'\<close> event: the promise of \<^verbatim>\<open>executeBuildProcess\<close> is fulfilled exactly
  when the exit code is 0, and for any other code (also \<^verbatim>\<open>null\<close>) it is rejected
  with a \<open>BUILD_FAILED\<close> error that carries the code and all of the stderr text,
  chunk after chunk.
\<close>

theorem exit_code_decides:
  "list_all is_data chunks \<Longrightarrow>
     outcome (exec_run j (chunks @ [Close code]) executeBuildProcess_start) =
       (if code = Some 0 then Fulfilled
        else Rejected (BuildError
               (''Build process exited with code '' @ show_code code @ ''\<newline>''
                  @ stderr_text chunks)
               BUILD_FAILED (ExitDetails code (stderr_text chunks))))"
  by (simp add: exec_run_append exec_run_data executeBuildProcess_start_def exit_error_def)

theorem exit_code_decides_witness:
  "list_all is_data chunks1
   \<and> outcome (exec_run job1 (chunks1 @ [Close (Some 0)]) executeBuildProcess_start) = Fulfilled
   \<and> outcome (exec_run job1 (chunks1 @ [Close (Some 2)]) executeBuildProcess_start) =
       Rejected (BuildError ''Build process exited with code 2\<newline>warn: aerr: b''
                   BUILD_FAILED (ExitDetails (Some 2) ''warn: aerr: b''))"
proof -
  have h: "list_all is_data chunks1" by (simp add: chunks1_def)
  show ?thesis
    using h exit_code_decides [OF h, of job1 "Some 0"] exit_code_decides [OF h, of job1 "Some 2"]
    by (simp add: chunks1_def show_code_def string_of_nat.simps digit_char_def)
qed

text \<open>
  C4. The timer is armed with 30 minutes in milliseconds. When it expires on a
  process that has only written output so far, the callback calls \<^verbatim>\<open>kill()\<close> and
  the promise is rejected with \<open>BUILD_FAILED\<close> and details \<^verbatim>\<open>{timeout: true}\<close>.
  After \<^verbatim>\<open>'close'\<close>, whatever came before it and whatever the exit code, the timer
  is cleared, and a cleared timer changes nothing.
\<close>

theorem timeout_kills_and_close_disarms:
  "buildTimeout executeBuildProcess_start = Some (30 * 60 * 1000)
   \<and> (list_all is_data chunks \<longrightarrow>
        killed (exec_run j (chunks @ [TimeoutFires]) executeBuildProcess_start)
        \<and> outcome (exec_run j (chunks @ [TimeoutFires]) executeBuildProcess_start) =
            Rejected (BuildError ''Build process timed out'' BUILD_FAILED (TimeoutDetails True)))
   \<and> buildTimeout (exec_run j (evs @ [Close code]) executeBuildProcess_start) = None
   \<and> exec_step j TimeoutFires (exec_run j (evs @ [Close code]) executeBuildProcess_start)
       = exec_run j (evs @ [Close code]) executeBuildProcess_start"
  by (simp add: exec_run_append exec_run_data executeBuildProcess_start_def timeout_error_def Let_def)

theorem timeout_kills_and_close_disarms_witness:
  "list_all is_data chunks1
   \<and> killed (exec_run job1 (chunks1 @ [TimeoutFires]) executeBuildProcess_start)
   \<and> outcome (exec_run job1 (chunks1 @ [TimeoutFires]) executeBuildProcess_start) =
       Rejected (BuildError ''Build process timed out'' BUILD_FAILED (TimeoutDetails True))
   \<and> buildTimeout (exec_run job1 (chunks1 @ [Close None]) executeBuildProcess_start) = None"
proof -
  have h: "list_all is_data chunks1" by (simp add: chunks1_def)
  show ?thesis
    using h timeout_kills_and_close_disarms [of chunks1 job1 chunks1 None]
    by simp
qed

section \<open>The uploads that are started\<close>

lemma upload_loop_fields:
  "s3_calls (upload_loop j m d entries s) =
     s3_calls s @ map (\<lambda>file. uploadFile j m (path_join d file) (projectUri j))
                    (map fst (filter (\<lambda>(file, isDirectory). \<not> isDirectory) entries))
   \<and> task_files (upload_loop j m d entries s) =
       task_files s @ map fst (filter (\<lambda>(file, isDirectory). \<not> isDirectory) entries)
   \<and> stages (upload_loop j m d entries s) =
       stages s @ replicate (length (filter (\<lambda>(file, isDirectory). \<not> isDirectory) entries)) Uploading
   \<and> uploadedCount (upload_loop j m d entries s) = uploadedCount s
   \<and> totalFiles (upload_loop j m d entries s) = totalFiles s
   \<and> kafka_calls (upload_loop j m d entries s) = kafka_calls s
   \<and> all_uploads (upload_loop j m d entries s) = all_uploads s"
proof (induction entries arbitrary: s)
  case Nil
  then show ?case by simp
next
  case (Cons en rest)
  obtain f isDirectory where en: "en = (f, isDirectory)" by (cases en)
  show ?case
    by (cases isDirectory) (simp_all add: en Cons.IH Let_def replicate_append_same flip: replicate_Suc)
qed

lemma uploadArtifacts_entries1: "uploadArtifacts job1 mime1 (Some entries1) = Inr uploads1"
  by (simp add: uploadArtifacts_def entries1_def uploads1_def job1_def mime1_def Let_def
      uploadFile_def path_join_def path_basename_def content_type_def all_done_def)

lemma uploadArtifacts_Some:
  "uploadArtifacts j m (Some entries) =
     Inr \<lparr>task_files = map fst (filter (\<lambda>(file, isDirectory). \<not> isDirectory) entries),
          stages = replicate (length (filter (\<lambda>(file, isDirectory). \<not> isDirectory) entries)) Uploading,
          uploadedCount = 0,
          totalFiles = length (filter (\<lambda>(file, isDirectory). \<not> isDirectory) entries),
          s3_calls = map (\<lambda>file. uploadFile j m (path_join (path_join (outputDir j) ''dist'') file) (projectUri j))
                       (map fst (filter (\<lambda>(file, isDirectory). \<not> isDirectory) entries)),
          kafka_calls = [],
          all_uploads = (if filter (\<lambda>(file, isDirectory). \<not> isDirectory) entries = [] then Fulfilled else Pending)\<rparr>"
  by (simp add: uploadArtifacts_def Let_def upload_loop_fields all_done_def list_all_iff)

text \<open>
  C7. The tasks are exactly the entries of the listing that are not directories, in
  listing order, and each sends one command: its key is \<^verbatim>\<open>__outputs/\<close>, the project
  URI, a slash and the base name of the file's path; its content type is what the
  lookup gives for the path, and \<^verbatim>\<open>application/octet-stream\<close> when it gives none.
  No command is sent for a directory.
\<close>

theorem uploads_exactly_the_files:
  assumes "uploadArtifacts j mime_lookup (Some entries) = Inr s"
  shows "task_files s = map fst (filter (\<lambda>(file, isDirectory). \<not> isDirectory) entries)
    \<and> s3_calls s =
        map (\<lambda>file.
               \<lparr>Bucket = s3BucketName j,
                Key = ''__outputs/'' @ projectUri j @ ''/''
                        @ path_basename (path_join (path_join (outputDir j) ''dist'') file),
                Body = path_join (path_join (outputDir j) ''dist'') file,
                ContentType =
                  (case mime_lookup (path_join (path_join (outputDir j) ''dist'') file) of
                     None \<Rightarrow> ''application/octet-stream''
                   | Some t \<Rightarrow> if t = [] then ''application/octet-stream'' else t)\<rparr>)
            (task_files s)"
  using assms by (auto simp: uploadArtifacts_Some uploadFile_def content_type_def Let_def)

theorem uploads_exactly_the_files_witness:
  "uploadArtifacts job1 mime1 (Some entries1) = Inr uploads1
   \<and> task_files uploads1 = [''a.js'', ''assets/b.css'', ''LICENSE'']
   \<and> map Key (s3_calls uploads1)
       = [''__outputs/p1/a.js'', ''__outputs/p1/b.css'', ''__outputs/p1/LICENSE'']
   \<and> map ContentType (s3_calls uploads1)
       = [''application/javascript'', ''text/css'', ''application/octet-stream'']"
  using uploads_exactly_the_files [OF uploadArtifacts_entries1]
  by (simp add: uploadArtifacts_entries1 uploads1_def)

section \<open>Progress of the uploads\<close>

lemma length_filter_update:
  "i < length xs \<Longrightarrow>
     length (filter P (xs[i := v])) + (if P (xs ! i) then 1 else 0)
       = length (filter P xs) + (if P v then 1 else 0)"
proof (induction xs arbitrary: i)
  case Nil
  then show ?case by simp
next
  case (Cons x xs)
  then show ?case by (cases i) auto
qed

lemma not_all_done:
  "i < length sts \<Longrightarrow> sts ! i \<noteq> Done \<Longrightarrow> \<not> all_done sts"
  by (auto simp: all_done_def list_all_length)

lemma totalFiles_step: "totalFiles (upload_step ev s) = totalFiles s"
  by (cases ev) (auto simp: task_fails_def Let_def split: option.split)

lemma totalFiles_run: "totalFiles (upload_run evs s) = totalFiles s"
  by (induction evs arbitrary: s) (auto simp: totalFiles_step)

lemma upload_inv_step:
  assumes "upload_inv s"
  shows "upload_inv (upload_step ev s)"
proof (cases ev)
  case (S3Settled i r)
  show ?thesis
  proof (cases "i < length (stages s) \<and> stages s ! i = Uploading")
    case False
    with assms S3Settled show ?thesis by auto
  next
    case True
    then have i: "i < length (stages s)" and st: "stages s ! i = Uploading" by auto
    have nd: "\<not> all_done (stages s)"
      using not_all_done [of i "stages s"] i st by simp
    with assms have nf: "all_uploads s \<noteq> Fulfilled" by (auto simp: upload_inv_def)
    have u: "\<And>v. length (filter (\<lambda>st. st = Uploading) ((stages s)[i := v])) + 1
               = length (filter (\<lambda>st. st = Uploading) (stages s)) + (if v = Uploading then 1 else 0)"
      using length_filter_update [OF i, of "\<lambda>st. st = Uploading"] st by simp
    have p: "\<And>v. length (filter (\<lambda>st. st = Publishing \<or> st = Done) ((stages s)[i := v]))
               = length (filter (\<lambda>st. st = Publishing \<or> st = Done) (stages s))
                 + (if v = Publishing \<or> v = Done then 1 else 0)"
      using length_filter_update [OF i, of "\<lambda>st. st = Publishing \<or> st = Done"] st by simp
    show ?thesis
    proof (cases r)
      case None
      have "\<not> all_done ((stages s)[i := Publishing])"
        using not_all_done [of i "(stages s)[i := Publishing]"] i by simp
      with assms S3Settled True None nf u [of Publishing] p [of Publishing] show ?thesis
        by (auto simp: upload_inv_def Let_def)
    next
      case (Some err)
      have "reject (upload_failed (task_files s ! i) err) (all_uploads s) \<noteq> Fulfilled"
        using nf by (cases "all_uploads s") auto
      with assms S3Settled True Some u [of "Failed (upload_failed (task_files s ! i) err)"]
        p [of "Failed (upload_failed (task_files s ! i) err)"] show ?thesis
        by (auto simp: upload_inv_def task_fails_def Let_def)
    qed
  qed
next
  case (PublishSettled i r)
  show ?thesis
  proof (cases "i < length (stages s) \<and> stages s ! i = Publishing")
    case False
    with assms PublishSettled show ?thesis by auto
  next
    case True
    then have i: "i < length (stages s)" and st: "stages s ! i = Publishing" by auto
    have nd: "\<not> all_done (stages s)"
      using not_all_done [of i "stages s"] i st by simp
    with assms have nf: "all_uploads s \<noteq> Fulfilled" by (auto simp: upload_inv_def)
    have u: "\<And>v. length (filter (\<lambda>st. st = Uploading) ((stages s)[i := v]))
               = length (filter (\<lambda>st. st = Uploading) (stages s)) + (if v = Uploading then 1 else 0)"
      using length_filter_update [OF i, of "\<lambda>st. st = Uploading"] st by simp
    have p: "\<And>v. length (filter (\<lambda>st. st = Publishing \<or> st = Done) ((stages s)[i := v])) + 1
               = length (filter (\<lambda>st. st = Publishing \<or> st = Done) (stages s))
                 + (if v = Publishing \<or> v = Done then 1 else 0)"
      using length_filter_update [OF i, of "\<lambda>st. st = Publishing \<or> st = Done"] st by simp
    show ?thesis
    proof (cases r)
      case None
      with assms PublishSettled True nf u [of Done] p [of Done] show ?thesis
        by (auto simp: upload_inv_def Let_def)
    next
      case (Some err)
      have "reject (upload_failed (task_files s ! i) err) (all_uploads s) \<noteq> Fulfilled"
        using nf by (cases "all_uploads s") auto
      moreover have "\<not> all_done ((stages s)[i := Failed (upload_failed (task_files s ! i) err)])"
        using not_all_done [of i "(stages s)[i := Failed (upload_failed (task_files s ! i) err)]"] i
        by simp
      ultimately show ?thesis
        using assms PublishSettled True Some u [of "Failed (upload_failed (task_files s ! i) err)"]
          p [of "Failed (upload_failed (task_files s ! i) err)"]
        by (auto simp: upload_inv_def task_fails_def Let_def)
    qed
  qed
qed

lemma upload_inv_run: "upload_inv s \<Longrightarrow> upload_inv (upload_run evs s)"
  by (induction evs arbitrary: s) (auto simp: upload_inv_step)

lemma upload_inv_start:
  "uploadArtifacts j m (Some entries) = Inr s \<Longrightarrow> upload_inv s"
  by (auto simp: uploadArtifacts_Some upload_inv_def all_done_def list_all_iff)

lemma upload_inv_fulfilled:
  assumes "upload_inv s" "all_uploads s = Fulfilled"
  shows "uploadedCount s = totalFiles s"
proof -
  from assms have "all_done (stages s)" by (simp add: upload_inv_def)
  then have "filter (\<lambda>st. st = Publishing \<or> st = Done) (stages s) = stages s"
    by (auto simp: all_done_def list_all_iff)
  with assms(1) show ?thesis by (auto simp: upload_inv_def)
qed

text \<open>
  C9. \<^verbatim>\<open>totalFiles\<close> is the number of entries that are not directories and no
  event changes it. In whatever order the awaited calls settle, the counter never
  exceeds it and the lines given to \<^verbatim>\<open>publishLog\<close> are the progress lines for
  1, 2, ... up to the counter, each over \<^verbatim>\<open>totalFiles\<close>; once every task is
  fulfilled they run up to \<^verbatim>\<open>totalFiles\<close> over \<^verbatim>\<open>totalFiles\<close>.
\<close>

theorem progress_counts_to_total:
  assumes "uploadArtifacts j mime_lookup (Some entries) = Inr s0"
  shows "totalFiles (upload_run evs s0)
           = length (filter (\<lambda>(file, isDirectory). \<not> isDirectory) entries)
    \<and> uploadedCount (upload_run evs s0) \<le> totalFiles s0
    \<and> kafka_calls (upload_run evs s0)
        = map (\<lambda>c. progress_line c (totalFiles s0)) [1..<Suc (uploadedCount (upload_run evs s0))]
    \<and> (all_uploads (upload_run evs s0) = Fulfilled \<longrightarrow>
         kafka_calls (upload_run evs s0)
           = map (\<lambda>c. progress_line c (totalFiles s0)) [1..<Suc (totalFiles s0)])"
proof -
  have inv: "upload_inv (upload_run evs s0)"
    using assms by (simp add: upload_inv_start upload_inv_run)
  have t: "totalFiles (upload_run evs s0) = totalFiles s0" by (rule totalFiles_run)
  have n: "totalFiles s0 = length (filter (\<lambda>(file, isDirectory). \<not> isDirectory) entries)"
    using assms by (auto simp: uploadArtifacts_Some)
  have le: "uploadedCount (upload_run evs s0) \<le> totalFiles s0"
    using inv t by (simp add: upload_inv_def)
  have k: "kafka_calls (upload_run evs s0)
        = map (\<lambda>c. progress_line c (totalFiles s0)) [1..<Suc (uploadedCount (upload_run evs s0))]"
    using inv t by (simp add: upload_inv_def)
  have f: "all_uploads (upload_run evs s0) = Fulfilled \<Longrightarrow>
             uploadedCount (upload_run evs s0) = totalFiles s0"
    using upload_inv_fulfilled [OF inv] t by simp
  show ?thesis using t n le k f by simp
qed

theorem progress_counts_to_total_witness:
  "uploadArtifacts job1 mime1 (Some entries1) = Inr uploads1
   \<and> totalFiles (upload_run schedule1 uploads1) = 3
   \<and> all_uploads (upload_run schedule1 uploads1) = Fulfilled
   \<and> kafka_calls (upload_run schedule1 uploads1)
       = [''Upload progress: 1/3 files'', ''Upload progress: 2/3 files'',
          ''Upload progress: 3/3 files'']"
  using progress_counts_to_total [OF uploadArtifacts_entries1, of schedule1]
  by (simp add: uploadArtifacts_entries1 uploads1_def schedule1_def all_done_def
      progress_line_def string_of_nat.simps digit_char_def)

section \<open>Teardown\<close>

lemma metrics_of_append: "metrics_of (xs @ ys) = metrics_of xs @ metrics_of ys"
  by (induction xs rule: metrics_of.induct) auto

lemma recordBuildMetrics_connected:
  "isConnected s \<Longrightarrow>
     recordBuildMetrics w dep puri st en status msg s =
       (None, s\<lparr>effects := effects s @
          InsertMetrics \<lparr>m_deployment_id = dep, m_project_uri = puri, m_start_time = st,
             m_end_time = en,
             m_duration_seconds = (en - (case st of None \<Rightarrow> 0 | Some t \<Rightarrow> t)) div 1000,
             m_status = status, m_error_message = msg\<rparr>
          # logged ''Failed to record build metrics:'' (insert_fails w)\<rparr>)"
  by (simp add: recordBuildMetrics_def Let_def emit_def logger_error_def logged_def
      split: option.split)

lemma gracefulShutdown_all:
  "gracefulShutdown (Some (kafka_disconnect w)) (Some (clickhouse_disconnect w))
       (Some (remove_output w)) s =
     (None,
      s\<lparr>isConnected := isConnected s \<and> close_fails w \<noteq> None,
        outputDirExists := outputDirExists s \<and> rm_fails w \<noteq> None,
        effects := effects s @ [LogInfo ''Starting graceful shutdown...'']
          @ (if producer s
             then KafkaDisconnect # logged ''Error disconnecting Kafka:'' (kafka_disconnect_fails w)
             else [])
          @ (if isConnected s
             then ClickhouseClose #
               (case close_fails w of
                  None \<Rightarrow> [LogInfo ''ClickHouse connection closed'']
                | Some err \<Rightarrow> [LogError ''Error disconnecting from ClickHouse:'' (message err)])
             else [])
          @ (if outputDirExists s
             then RmOutputDir # logged ''Error during cleanup:'' (rm_fails w)
             else [])
          @ [LogInfo ''Graceful shutdown completed'']\<rparr>)"
  by (cases "kafka_disconnect_fails w"; cases "close_fails w"; cases "rm_fails w")
     (simp_all add: gracefulShutdown_def caught_def kafka_disconnect_def clickhouse_disconnect_def
        remove_output_def emit_def logger_info_def logger_error_def logged_def Let_def)


lemma cleanup_call_first:
  assumes "\<not> isExiting s"
  shows "cleanup_call now err s =
     s\<lparr>isExiting := True,
       buildProcess := (if buildProcess s = Some False then Some True else buildProcess s),
       effects := effects s @ (if buildProcess s = Some False then [Kill] else []),
       teardown := AwaitMetrics (case err of None \<Rightarrow> ''SUCCESS'' | Some e \<Rightarrow> ''FAILED'')
                     (case err of None \<Rightarrow> [] | Some e \<Rightarrow> message e) now\<rparr>"
proof (cases "buildProcess s")
  case None
  with assms show ?thesis by (simp add: cleanup_call_def Let_def)
next
  case (Some k)
  with assms show ?thesis by (cases k) (simp_all add: cleanup_call_def Let_def emit_def)
qed

lemma cleanup_resume_metrics_connected:
  assumes "teardown s = AwaitMetrics status msg en" "isConnected s"
  shows "cleanup_resume w j s =
     s\<lparr>effects := effects s @
         InsertMetrics \<lparr>m_deployment_id = deploymentId j, m_project_uri = projectUri j,
            m_start_time = buildStartTime s, m_end_time = en,
            m_duration_seconds = (en - (case buildStartTime s of None \<Rightarrow> 0 | Some t \<Rightarrow> t)) div 1000,
            m_status = status, m_error_message = msg\<rparr>
         # logged ''Failed to record build metrics:'' (insert_fails w),
       teardown := AwaitShutdown\<rparr>"
  using assms by (simp add: cleanup_resume_def recordBuildMetrics_connected)

lemma cleanup_resume_metrics_not_connected:
  assumes "teardown s = AwaitMetrics status msg en" "\<not> isConnected s"
  shows "cleanup_resume w j s =
     s\<lparr>effects := effects s @ [LogError ''Cleanup failed:'' ''ClickHouse client not connected''],
       teardown := Returned None\<rparr>"
  using assms
  by (simp add: cleanup_resume_def recordBuildMetrics_def not_connected_def logger_error_def emit_def)

lemma cleanup_resume_shutdown:
  assumes "teardown s = AwaitShutdown"
  shows "cleanup_resume w j s =
     (snd (gracefulShutdown (Some (kafka_disconnect w)) (Some (clickhouse_disconnect w))
        (Some (remove_output w)) s))\<lparr>teardown := Returned None\<rparr>"
  using assms by (simp add: cleanup_resume_def gracefulShutdown_all)

lemma cleanup_resume_returned:
  "teardown s = Returned r \<Longrightarrow> cleanup_resume w j s = s"
  by (simp add: cleanup_resume_def)

lemma cleanup_connected:
  assumes "\<not> isExiting s" "isConnected s"
  shows "effects (cleanup w j now err s) =
      effects s @ (if buildProcess s = Some False then [Kill] else [])
      @ InsertMetrics \<lparr>m_deployment_id = deploymentId j, m_project_uri = projectUri j,
            m_start_time = buildStartTime s, m_end_time = now,
            m_duration_seconds = (now - (case buildStartTime s of None \<Rightarrow> 0 | Some t \<Rightarrow> t)) div 1000,
            m_status = (case err of None \<Rightarrow> ''SUCCESS'' | Some e \<Rightarrow> ''FAILED''),
            m_error_message = (case err of None \<Rightarrow> [] | Some e \<Rightarrow> message e)\<rparr>
        # logged ''Failed to record build metrics:'' (insert_fails w)
      @ [LogInfo ''Starting graceful shutdown...'']
      @ (if producer s
         then KafkaDisconnect # logged ''Error disconnecting Kafka:'' (kafka_disconnect_fails w)
         else [])
      @ ClickhouseClose #
          (case close_fails w of
             None \<Rightarrow> [LogInfo ''ClickHouse connection closed'']
           | Some e \<Rightarrow> [LogError ''Error disconnecting from ClickHouse:'' (message e)])
      @ (if outputDirExists s
         then RmOutputDir # logged ''Error during cleanup:'' (rm_fails w)
         else [])
      @ [LogInfo ''Graceful shutdown completed'']"
    and "teardown (cleanup w j now err s) = Returned None"
    and "outputDirExists (cleanup w j now err s) = (outputDirExists s \<and> rm_fails w \<noteq> None)"
    and "buildProcess (cleanup w j now err s) =
           (if buildProcess s = Some False then Some True else buildProcess s)"
  using assms
  by (simp_all add: cleanup_def cleanup_call_first cleanup_resume_metrics_connected
      cleanup_resume_shutdown gracefulShutdown_all)

lemma cleanup_not_connected:
  assumes "\<not> isExiting s" "\<not> isConnected s"
  shows "effects (cleanup w j now err s) =
      effects s @ (if buildProcess s = Some False then [Kill] else [])
      @ [LogError ''Cleanup failed:'' ''ClickHouse client not connected'']"
    and "teardown (cleanup w j now err s) = Returned None"
    and "outputDirExists (cleanup w j now err s) = outputDirExists s"
    and "buildProcess (cleanup w j now err s) =
           (if buildProcess s = Some False then Some True else buildProcess s)"
  using assms
  by (simp_all add: cleanup_def cleanup_call_first cleanup_resume_metrics_not_connected
      cleanup_resume_returned)

text \<open>
  C6, as stated, fails. When ClickHouse never connected (the failure
  \<^verbatim>\<open>initialize()\<close> then hands to \<^verbatim>\<open>cleanup\<close>), \<^verbatim>\<open>recordBuildMetrics\<close> throws, the
  \<^verbatim>\<open>catch\<close> of \<^verbatim>\<open>cleanup\<close> logs it, and the graceful shutdown behind it is not run:
  the output directory is still there.
\<close>

theorem failed_metrics_skip_shutdown:
  "effects (cleanup no_failures job1 5000
       (Some (BuildError ''Failed to initialize ClickHouse connection'' CLICKHOUSE_ERROR
                (OriginalError ''connect ECONNREFUSED'')))
       disconnected_state)
     = [LogError ''Cleanup failed:'' ''ClickHouse client not connected'']
   \<and> outputDirExists (cleanup no_failures job1 5000
       (Some (BuildError ''Failed to initialize ClickHouse connection'' CLICKHOUSE_ERROR
                (OriginalError ''connect ECONNREFUSED'')))
       disconnected_state)"
  by (simp add: cleanup_not_connected disconnected_state_def)

text \<open>
  C6, amended. The cleanup call that passes the latch always returns normally. With
  ClickHouse connected, every step is attempted whatever the others do: the kill of
  a live process, the metrics insert, the Kafka disconnect, the ClickHouse close and
  the removal of the output directory, each failure leaving its own log line. With
  ClickHouse not connected, the throw of \<^verbatim>\<open>recordBuildMetrics\<close> is logged as
  \<^verbatim>\<open>Cleanup failed:\<close> and nothing after it is run.
\<close>

theorem teardown_failures_logged:
  assumes "\<not> isExiting s"
  shows "teardown (cleanup w j now err s) = Returned None
   \<and> effects (cleanup w j now err s) =
      effects s @ (if buildProcess s = Some False then [Kill] else [])
      @ (if isConnected s then
           InsertMetrics \<lparr>m_deployment_id = deploymentId j, m_project_uri = projectUri j,
              m_start_time = buildStartTime s, m_end_time = now,
              m_duration_seconds =
                (now - (case buildStartTime s of None \<Rightarrow> 0 | Some t \<Rightarrow> t)) div 1000,
              m_status = (case err of None \<Rightarrow> ''SUCCESS'' | Some e \<Rightarrow> ''FAILED''),
              m_error_message = (case err of None \<Rightarrow> [] | Some e \<Rightarrow> message e)\<rparr>
           # logged ''Failed to record build metrics:'' (insert_fails w)
           @ [LogInfo ''Starting graceful shutdown...'']
           @ (if producer s
              then KafkaDisconnect
                     # logged ''Error disconnecting Kafka:'' (kafka_disconnect_fails w)
              else [])
           @ ClickhouseClose #
               (case close_fails w of
                  None \<Rightarrow> [LogInfo ''ClickHouse connection closed'']
                | Some e \<Rightarrow> [LogError ''Error disconnecting from ClickHouse:'' (message e)])
           @ (if outputDirExists s
              then RmOutputDir # logged ''Error during cleanup:'' (rm_fails w)
              else [])
           @ [LogInfo ''Graceful shutdown completed'']
         else [LogError ''Cleanup failed:'' ''ClickHouse client not connected''])"
proof (cases "isConnected s")
  case True
  with assms show ?thesis
    using cleanup_connected(1,2) [OF assms True, of w j now err] by simp
next
  case False
  with assms show ?thesis
    using cleanup_not_connected(1,2) [OF assms False, of w j now err] by simp
qed

theorem teardown_failures_logged_witness:
  "\<not> isExiting running_state
   \<and> teardown (cleanup failing_disconnects job1 6000 (Some (Error ''boom'')) running_state)
       = Returned None
   \<and> effects (cleanup failing_disconnects job1 6000 (Some (Error ''boom'')) running_state) =
      [Kill,
       InsertMetrics \<lparr>m_deployment_id = ''d1'', m_project_uri = ''p1'',
          m_start_time = Some 1000, m_end_time = 6000, m_duration_seconds = 5,
          m_status = ''FAILED'', m_error_message = ''boom''\<rparr>,
       LogError ''Failed to record build metrics:'' ''socket hang up'',
       LogInfo ''Starting graceful shutdown...'',
       KafkaDisconnect, LogError ''Error disconnecting Kafka:'' ''broker gone'',
       ClickhouseClose, LogError ''Error disconnecting from ClickHouse:'' ''close failed'',
       RmOutputDir, LogError ''Error during cleanup:'' ''EBUSY'',
       LogInfo ''Graceful shutdown completed'']"
proof -
  have h: "\<not> isExiting running_state" by (simp add: running_state_def)
  show ?thesis
    using h teardown_failures_logged [OF h, of failing_disconnects job1 6000 "Some (Error ''boom'')"]
    by (simp add: running_state_def failing_disconnects_def job1_def logged_def)
qed

section \<open>The latch of cleanup\<close>

lemma isExiting_cleanup_resume: "isExiting (cleanup_resume w j s) = isExiting s"
proof (cases "teardown s")
  case Idle
  then show ?thesis by (simp add: cleanup_resume_def)
next
  case (AwaitMetrics status msg en)
  then show ?thesis
    by (cases "isConnected s")
       (simp_all add: cleanup_resume_metrics_connected cleanup_resume_metrics_not_connected)
next
  case AwaitShutdown
  then show ?thesis by (simp add: cleanup_resume_shutdown gracefulShutdown_all)
next
  case (Returned r)
  then show ?thesis by (simp add: cleanup_resume_returned)
qed


section \<open>A rejected upload\<close>

lemma rejected_stays_step:
  "all_uploads s = Rejected e \<Longrightarrow> all_uploads (upload_step ev s) = Rejected e"
  by (cases ev) (auto simp: task_fails_def Let_def split: option.split)

lemma rejected_stays:
  "all_uploads s = Rejected e \<Longrightarrow> all_uploads (upload_run evs s) = Rejected e"
  by (induction evs arbitrary: s) (auto simp: rejected_stays_step)

lemma upload_step_any_promise:
  "\<exists>q. upload_step ev (s\<lparr>all_uploads := p\<rparr>) = (upload_step ev s)\<lparr>all_uploads := q\<rparr>"
proof (cases ev)
  case (S3Settled i r)
  then show ?thesis
    by (cases r) (auto simp: task_fails_def Let_def intro: exI [of _ p])
next
  case (PublishSettled i r)
  then show ?thesis
    by (cases r) (auto simp: task_fails_def Let_def intro: exI [of _ p])
qed

lemma upload_run_any_promise:
  "\<exists>q. upload_run evs (s\<lparr>all_uploads := p\<rparr>) = (upload_run evs s)\<lparr>all_uploads := q\<rparr>"
proof (induction evs arbitrary: s p)
  case Nil
  show ?case by (auto intro: exI [of _ p])
next
  case (Cons ev evs)
  obtain q where q: "upload_step ev (s\<lparr>all_uploads := p\<rparr>) = (upload_step ev s)\<lparr>all_uploads := q\<rparr>"
    using upload_step_any_promise by blast
  show ?case by (simp add: q Cons.IH)
qed

text \<open>
  C1, as stated, fails. \<^verbatim>\<open>Promise.all\<close> rejects with the first rejection: after the
  upload of \<^verbatim>\<open>a.js\<close> is refused, \<^verbatim>\<open>uploadArtifacts\<close> has failed while the two other
  uploads are still in flight.
\<close>

theorem first_rejection_fails_at_once_example:
  "uploadArtifacts job1 mime1 (Some entries1) = Inr uploads1
   \<and> all_uploads (upload_run [S3Settled 0 (Some (Error ''AccessDenied''))] uploads1)
       = Rejected (BuildError ''Failed to upload a.js'' UPLOAD_FAILED
                     (OriginalError ''AccessDenied''))
   \<and> stages (upload_run [S3Settled 0 (Some (Error ''AccessDenied''))] uploads1)
       = [Failed (BuildError ''Failed to upload a.js'' UPLOAD_FAILED
                    (OriginalError ''AccessDenied'')), Uploading, Uploading]
   \<and> \<not> list_all settled (stages (upload_run [S3Settled 0 (Some (Error ''AccessDenied''))] uploads1))"
  by (simp add: uploadArtifacts_entries1 uploads1_def task_fails_def upload_failed_def Let_def)

lemma stages_other_task:
  "k \<noteq> i \<Longrightarrow>
     stages (upload_step (S3Settled i r) s) ! k = stages s ! k
     \<and> stages (upload_step (PublishSettled i r) s) ! k = stages s ! k"
  by (cases r) (auto simp: task_fails_def Let_def)

text \<open>
  C1, amended. While \<^verbatim>\<open>Promise.all\<close> is pending, the first task whose awaited call
  rejects (the upload, or the progress line after it) fails \<^verbatim>\<open>uploadArtifacts\<close> at
  once with \<open>UPLOAD_FAILED\<close> naming that task's file, and nothing that settles later
  changes the error. The other tasks are not cancelled: an event of task \<open>i\<close> leaves
  the stage of every other task as it is, a task still uploading when task \<open>i\<close> is
  rejected goes on to publish its progress line when its own upload succeeds, and
  what the tasks do does not depend on the state of \<^verbatim>\<open>Promise.all\<close>.
\<close>

theorem first_rejection_fails_at_once:
  assumes "all_uploads s = Pending" and "i < length (stages s)"
  shows "(stages s ! i = Uploading \<longrightarrow>
            all_uploads (upload_run (S3Settled i (Some err) # evs) s)
              = Rejected (BuildError (''Failed to upload '' @ task_files s ! i) UPLOAD_FAILED
                            (OriginalError (message err))))
   \<and> (stages s ! i = Publishing \<longrightarrow>
            all_uploads (upload_run (PublishSettled i (Some err) # evs) s)
              = Rejected (BuildError (''Failed to upload '' @ task_files s ! i) UPLOAD_FAILED
                            (OriginalError (message err))))
   \<and> stages (upload_run evs (s\<lparr>all_uploads := p\<rparr>)) = stages (upload_run evs s)
   \<and> uploadedCount (upload_run evs (s\<lparr>all_uploads := p\<rparr>)) = uploadedCount (upload_run evs s)
   \<and> kafka_calls (upload_run evs (s\<lparr>all_uploads := p\<rparr>)) = kafka_calls (upload_run evs s)
   \<and> (k \<noteq> i \<longrightarrow>
         stages (upload_step (S3Settled i r) s) ! k = stages s ! k
         \<and> stages (upload_step (PublishSettled i r) s) ! k = stages s ! k)
   \<and> (k \<noteq> i \<and> k < length (stages s) \<and> stages s ! k = Uploading \<longrightarrow>
         stages (upload_step (S3Settled k None) (upload_step (S3Settled i (Some err)) s)) ! k
           = Publishing
         \<and> uploadedCount (upload_step (S3Settled k None) (upload_step (S3Settled i (Some err)) s))
           = uploadedCount s + 1)"
proof -
  have a: "all_uploads (upload_run (S3Settled i (Some err) # evs) s)
              = Rejected (BuildError (''Failed to upload '' @ task_files s ! i) UPLOAD_FAILED
                            (OriginalError (message err)))"
    if "stages s ! i = Uploading"
  proof -
    have "all_uploads (upload_step (S3Settled i (Some err)) s)
            = Rejected (upload_failed (task_files s ! i) err)"
      using assms that by (simp add: task_fails_def Let_def)
    then show ?thesis by (simp add: rejected_stays upload_failed_def)
  qed
  have b: "all_uploads (upload_run (PublishSettled i (Some err) # evs) s)
              = Rejected (BuildError (''Failed to upload '' @ task_files s ! i) UPLOAD_FAILED
                            (OriginalError (message err)))"
    if "stages s ! i = Publishing"
  proof -
    have "all_uploads (upload_step (PublishSettled i (Some err)) s)
            = Rejected (upload_failed (task_files s ! i) err)"
      using assms that by (simp add: task_fails_def Let_def)
    then show ?thesis by (simp add: rejected_stays upload_failed_def)
  qed
  obtain q where q: "upload_run evs (s\<lparr>all_uploads := p\<rparr>) = (upload_run evs s)\<lparr>all_uploads := q\<rparr>"
    using upload_run_any_promise by blast
  have c: "stages (upload_step (S3Settled i r) s) ! k = stages s ! k
         \<and> stages (upload_step (PublishSettled i r) s) ! k = stages s ! k"
    if "k \<noteq> i"
    using that by (rule stages_other_task)
  have d: "stages (upload_step (S3Settled k None) (upload_step (S3Settled i (Some err)) s)) ! k
           = Publishing
         \<and> uploadedCount (upload_step (S3Settled k None) (upload_step (S3Settled i (Some err)) s))
           = uploadedCount s + 1"
    if "k \<noteq> i" "k < length (stages s)" "stages s ! k = Uploading"
    using that by (auto simp: task_fails_def Let_def)
  show ?thesis using a b c d by (simp add: q)
qed

theorem first_rejection_fails_at_once_witness:
  "all_uploads uploads1 = Pending \<and> 1 < length (stages uploads1)
   \<and> stages uploads1 ! 1 = Uploading
   \<and> all_uploads (upload_run
        [S3Settled 1 (Some (Error ''AccessDenied'')), S3Settled 0 (Some (Error ''SlowDown'')),
         S3Settled 2 None] uploads1)
       = Rejected (BuildError ''Failed to upload assets/b.css'' UPLOAD_FAILED
                     (OriginalError ''AccessDenied''))
   \<and> stages (upload_step (S3Settled 1 (Some (Error ''AccessDenied''))) uploads1) ! 2
       = Uploading
   \<and> stages (upload_step (S3Settled 2 None)
        (upload_step (S3Settled 1 (Some (Error ''AccessDenied''))) uploads1)) ! 2 = Publishing
   \<and> kafka_calls (upload_run
        [S3Settled 1 (Some (Error ''AccessDenied'')), S3Settled 0 (Some (Error ''SlowDown'')),
         S3Settled 2 None] uploads1)
       = [''Upload progress: 1/3 files'']"
proof -
  have h: "all_uploads uploads1 = Pending" "1 < length (stages uploads1)"
    "stages uploads1 ! 1 = Uploading"
    by (simp_all add: uploads1_def)
  have h2: "(2::nat) \<noteq> 1" "2 < length (stages uploads1)" "stages uploads1 ! 2 = Uploading"
    by (simp_all add: uploads1_def)
  have k: "kafka_calls (upload_run
        [S3Settled 1 (Some (Error ''AccessDenied'')), S3Settled 0 (Some (Error ''SlowDown'')),
         S3Settled 2 None] uploads1)
       = [''Upload progress: 1/3 files'']"
    by (simp add: uploads1_def task_fails_def Let_def progress_line_def
        string_of_nat.simps digit_char_def)
  have t: "task_files uploads1 ! 1 = ''assets/b.css''" by (simp add: uploads1_def)
  note T = first_rejection_fails_at_once [OF h(1,2), of "Error ''AccessDenied''"
        "[S3Settled 0 (Some (Error ''SlowDown'')), S3Settled 2 None]" Pending 2
        "Some (Error ''AccessDenied'')"]
  from T h(3) have r: "all_uploads (upload_run
        [S3Settled 1 (Some (Error ''AccessDenied'')), S3Settled 0 (Some (Error ''SlowDown'')),
         S3Settled 2 None] uploads1)
       = Rejected (BuildError (''Failed to upload '' @ task_files uploads1 ! 1) UPLOAD_FAILED
                     (OriginalError (message (Error ''AccessDenied''))))"
    by blast
  from T h2 have c2: "stages (upload_step (S3Settled 1 (Some (Error ''AccessDenied''))) uploads1) ! 2
       = stages uploads1 ! 2"
    by blast
  from T h2 have d2: "stages (upload_step (S3Settled 2 None)
        (upload_step (S3Settled 1 (Some (Error ''AccessDenied''))) uploads1)) ! 2 = Publishing"
    by blast
  have r': "all_uploads (upload_run
        [S3Settled 1 (Some (Error ''AccessDenied'')), S3Settled 0 (Some (Error ''SlowDown'')),
         S3Settled 2 None] uploads1)
       = Rejected (BuildError ''Failed to upload assets/b.css'' UPLOAD_FAILED
                     (OriginalError ''AccessDenied''))"
    by (simp only: r t append.simps message.simps)
  have c2': "stages (upload_step (S3Settled 1 (Some (Error ''AccessDenied''))) uploads1) ! 2
       = Uploading"
    by (simp only: c2 h2(3))
  show ?thesis using h r' c2' d2 k by (intro conjI)
qed

section \<open>The ClickHouse writes\<close>

text \<open>
  C8, as stated, fails: with the client not connected, both writes reject with a
  \<^verbatim>\<open>BuildError\<close>, thrown by the guard at the head of each function.
\<close>

theorem clickhouse_writes_raise_when_not_connected:
  "fst (insertBuildLog no_failures ''d1'' ''Build process started'' ''INFO'' disconnected_state)
     = Some (BuildError ''ClickHouse client not connected'' CLICKHOUSE_ERROR NoDetails)
   \<and> fst (recordBuildMetrics no_failures ''d1'' ''p1'' None 5000 ''FAILED'' ''boom''
            disconnected_state)
     = Some (BuildError ''ClickHouse client not connected'' CLICKHOUSE_ERROR NoDetails)"
  by (simp add: insertBuildLog_def recordBuildMetrics_def disconnected_state_def
      not_connected_def)

text \<open>
  C8, amended. With the client connected, \<^verbatim>\<open>insertBuildLog\<close> and
  \<^verbatim>\<open>recordBuildMetrics\<close> raise nothing to their caller and change nothing but
  the effects: the insert is made and, when it fails, its error is logged; when
  \<^verbatim>\<open>crypto.randomUUID()\<close> throws, \<^verbatim>\<open>insertBuildLog\<close> makes no insert and logs
  that error. With the client not connected, they raise the \<open>CLICKHOUSE_ERROR\<close> of
  the guard and do nothing else.
\<close>

theorem clickhouse_writes_best_effort:
  "insertBuildLog w dep log level s =
     (if isConnected s
      then (None,
            s\<lparr>effects := effects s @
               (case uuid_fails w of
                  Some err \<Rightarrow> [LogError ''Failed to insert build log:'' (message err)]
                | None \<Rightarrow>
                    InsertLog dep log level
                      # logged ''Failed to insert build log:'' (insert_fails w))\<rparr>)
      else (Some not_connected, s))
   \<and> recordBuildMetrics w dep puri startTime endTime status errorMessage s =
     (if isConnected s
      then (None,
            s\<lparr>effects := effects s @
               InsertMetrics
                 \<lparr>m_deployment_id = dep, m_project_uri = puri, m_start_time = startTime,
                  m_end_time = endTime,
                  m_duration_seconds =
                    (endTime - (case startTime of None \<Rightarrow> 0 | Some t \<Rightarrow> t)) div 1000,
                  m_status = status, m_error_message = errorMessage\<rparr>
               # logged ''Failed to record build metrics:'' (insert_fails w)\<rparr>)
      else (Some not_connected, s))
   \<and> fst (insertBuildLog w dep log level s) = (if isConnected s then None else Some not_connected)
   \<and> fst (recordBuildMetrics w dep puri startTime endTime status errorMessage s)
       = (if isConnected s then None else Some not_connected)"
proof (intro conjI)
  show i: "insertBuildLog w dep log level s =
     (if isConnected s
      then (None,
            s\<lparr>effects := effects s @
               (case uuid_fails w of
                  Some err \<Rightarrow> [LogError ''Failed to insert build log:'' (message err)]
                | None \<Rightarrow>
                    InsertLog dep log level
                      # logged ''Failed to insert build log:'' (insert_fails w))\<rparr>)
      else (Some not_connected, s))"
    by (simp add: insertBuildLog_def Let_def emit_def logger_error_def logged_def
        split: option.split)
  show r: "recordBuildMetrics w dep puri startTime endTime status errorMessage s =
     (if isConnected s
      then (None,
            s\<lparr>effects := effects s @
               InsertMetrics
                 \<lparr>m_deployment_id = dep, m_project_uri = puri, m_start_time = startTime,
                  m_end_time = endTime,
                  m_duration_seconds =
                    (endTime - (case startTime of None \<Rightarrow> 0 | Some t \<Rightarrow> t)) div 1000,
                  m_status = status, m_error_message = errorMessage\<rparr>
               # logged ''Failed to record build metrics:'' (insert_fails w)\<rparr>)
      else (Some not_connected, s))"
    by (simp add: recordBuildMetrics_connected) (simp add: recordBuildMetrics_def)
  show "fst (insertBuildLog w dep log level s) = (if isConnected s then None else Some not_connected)"
    by (simp add: i)
  show "fst (recordBuildMetrics w dep puri startTime endTime status errorMessage s)
       = (if isConnected s then None else Some not_connected)"
    by (simp add: r)
qed

theorem clickhouse_writes_best_effort_witness:
  "insertBuildLog failing_insert ''d1'' ''x'' ''INFO'' running_state =
     (None, running_state\<lparr>effects :=
        [InsertLog ''d1'' ''x'' ''INFO'',
         LogError ''Failed to insert build log:'' ''socket hang up'']\<rparr>)
   \<and> insertBuildLog no_crypto ''d1'' ''x'' ''INFO'' running_state =
     (None, running_state\<lparr>effects :=
        [LogError ''Failed to insert build log:'' ''crypto is not defined'']\<rparr>)
   \<and> recordBuildMetrics failing_insert ''d1'' ''p1'' (Some 1000) 6000 ''FAILED'' ''boom''
        running_state =
     (None, running_state\<lparr>effects :=
        [InsertMetrics \<lparr>m_deployment_id = ''d1'', m_project_uri = ''p1'',
           m_start_time = Some 1000, m_end_time = 6000, m_duration_seconds = 5,
           m_status = ''FAILED'', m_error_message = ''boom''\<rparr>,
         LogError ''Failed to record build metrics:'' ''socket hang up'']\<rparr>)
   \<and> fst (insertBuildLog failing_insert ''d1'' ''x'' ''INFO'' disconnected_state)
       = Some not_connected"
  using clickhouse_writes_best_effort [of failing_insert "''d1''" "''x''" "''INFO''"
      running_state "''p1''" "Some 1000" 6000 "''FAILED''" "''boom''"]
    clickhouse_writes_best_effort [of no_crypto "''d1''" "''x''" "''INFO''"
      running_state "''p1''" "Some 1000" 6000 "''FAILED''" "''boom''"]
    clickhouse_writes_best_effort [of failing_insert "''d1''" "''x''" "''INFO''"
      disconnected_state "''p1''" "Some 1000" 6000 "''FAILED''" "''boom''"]
  by (simp add: running_state_def disconnected_state_def failing_insert_def no_crypto_def
      logged_def)

section \<open>Triggers and the exit of the process\<close>

lemma site_log_fields:
  "isExiting (site_log site s) = isExiting s"
  "isConnected (site_log site s) = isConnected s"
  "buildProcess (site_log site s) = buildProcess s"
  "buildStartTime (site_log site s) = buildStartTime s"
  "producer (site_log site s) = producer s"
  "outputDirExists (site_log site s) = outputDirExists s"
  "teardown (site_log site s) = teardown s"
  "exitCode (site_log site s) = exitCode s"
  by (induction site s rule: site_log.induct)
     (simp_all add: logger_info_def logger_error_def emit_def)

lemma site_log_effects:
  "\<exists>xs. (\<forall>x\<in>set xs. \<not> is_step x) \<and> effects (site_log site s) = effects s @ xs"
  by (induction site s rule: site_log.induct)
     (simp_all add: logger_info_def logger_error_def emit_def)

lemma steps_append: "steps (xs @ ys) = steps xs @ steps ys"
  by (simp add: steps_def)

lemma steps_no_step: "\<forall>x\<in>set xs. \<not> is_step x \<Longrightarrow> steps xs = []"
  by (induction xs) (auto simp: steps_def)

lemma metrics_of_no_step: "\<forall>x\<in>set xs. \<not> is_step x \<Longrightarrow> metrics_of xs = []"
  by (induction xs rule: metrics_of.induct) auto

lemma steps_site_log: "steps (effects (site_log site s)) = steps (effects s)"
  using site_log_effects [of site s] by (auto simp: steps_append steps_no_step)

lemma metrics_site_log: "metrics_of (effects (site_log site s)) = metrics_of (effects s)"
  using site_log_effects [of site s] by (auto simp: metrics_of_append metrics_of_no_step)

lemma proc_step_exited: "exitCode (server p) \<noteq> None \<Longrightarrow> proc_step w j ev p = p"
  by (simp add: proc_step_def)

lemma proc_run_exited: "exitCode (server p) \<noteq> None \<Longrightarrow> proc_run w j evs p = p"
  by (induction evs) (simp_all add: proc_step_exited)

lemma cleanup_resume_frame:
  "buildProcess (cleanup_resume w j s) = buildProcess s"
  "exitCode (cleanup_resume w j s) = exitCode s"
  "buildStartTime (cleanup_resume w j s) = buildStartTime s"
  "producer (cleanup_resume w j s) = producer s"
proof -
  have "buildProcess (cleanup_resume w j s) = buildProcess s
    \<and> exitCode (cleanup_resume w j s) = exitCode s
    \<and> buildStartTime (cleanup_resume w j s) = buildStartTime s
    \<and> producer (cleanup_resume w j s) = producer s"
  proof (cases "teardown s")
    case Idle
    then show ?thesis by (simp add: cleanup_resume_def)
  next
    case (AwaitMetrics status msg en)
    then show ?thesis
      by (cases "isConnected s")
         (simp_all add: cleanup_resume_metrics_connected cleanup_resume_metrics_not_connected)
  next
    case AwaitShutdown
    then show ?thesis by (simp add: cleanup_resume_shutdown gracefulShutdown_all)
  next
    case (Returned r)
    then show ?thesis by (simp add: cleanup_resume_returned)
  qed
  then show "buildProcess (cleanup_resume w j s) = buildProcess s"
    "exitCode (cleanup_resume w j s) = exitCode s"
    "buildStartTime (cleanup_resume w j s) = buildStartTime s"
    "producer (cleanup_resume w j s) = producer s"
    by simp_all
qed

lemma cleanup_resume_grows: "\<exists>ys. effects (cleanup_resume w j s) = effects s @ ys"
proof (cases "teardown s")
  case Idle
  then show ?thesis by (simp add: cleanup_resume_def)
next
  case (AwaitMetrics status msg en)
  then show ?thesis
    by (cases "isConnected s")
       (simp_all add: cleanup_resume_metrics_connected cleanup_resume_metrics_not_connected)
next
  case AwaitShutdown
  then show ?thesis by (simp add: cleanup_resume_shutdown gracefulShutdown_all)
next
  case (Returned r)
  then show ?thesis by (simp add: cleanup_resume_returned)
qed

lemma cleanup_resume_no_metrics_at_shutdown:
  "teardown s = AwaitShutdown \<Longrightarrow>
     metrics_of (effects (cleanup_resume w j s)) = metrics_of (effects s)"
  by (simp add: cleanup_resume_shutdown gracefulShutdown_all metrics_of_append logged_def
      split: option.split)

lemma cleanup_call_fields:
  assumes "\<not> isExiting s"
  shows "isExiting (cleanup_call now err s)"
    "isConnected (cleanup_call now err s) = isConnected s"
    "exitCode (cleanup_call now err s) = exitCode s"
    "buildStartTime (cleanup_call now err s) = buildStartTime s"
    "teardown (cleanup_call now err s) =
       AwaitMetrics (case err of None \<Rightarrow> ''SUCCESS'' | Some e \<Rightarrow> ''FAILED'')
         (case err of None \<Rightarrow> [] | Some e \<Rightarrow> message e) now"
    "effects (cleanup_call now err s) =
       effects s @ (if buildProcess s = Some False then [Kill] else [])"
    "buildProcess (cleanup_call now err s) =
       (if buildProcess s = Some False then Some True else buildProcess s)"
  using assms by (simp_all add: cleanup_call_first)

lemma proc_step_first_connected:
  assumes "exitCode (server p) = None" "\<not> isExiting (server p)" "isConnected (server p)"
  shows "proc_step w j (Called site now) p =
     p\<lparr>server := cleanup_call now (site_error site) (site_log site (server p)),
       exit_after := Some (site_exit site)\<rparr>"
  using assms by (simp add: proc_step_def Let_def site_log_fields)

lemma proc_step_first_not_connected:
  assumes "exitCode (server p) = None" "\<not> isExiting (server p)" "\<not> isConnected (server p)"
  shows "proc_step w j (Called site now) p =
     p\<lparr>server := (cleanup w j now (site_error site) (site_log site (server p)))
                     \<lparr>exitCode := Some (site_exit site)\<rparr>,
       exit_after := Some (site_exit site)\<rparr>"
  using assms by (simp add: proc_step_def Let_def site_log_fields)

lemma proc_step_latched:
  assumes "exitCode (server p) = None" "isExiting (server p)"
  shows "proc_step w j (Called site now) p =
     p\<lparr>server := (site_log site (server p))\<lparr>exitCode := Some (site_exit site)\<rparr>\<rparr>"
  using assms by (simp add: proc_step_def Let_def site_log_fields)

lemma proc_step_resume_metrics:
  assumes "exitCode (server p) = None" "teardown (server p) = AwaitMetrics st msg en"
    "isConnected (server p)"
  shows "proc_step w j Resumed p = p\<lparr>server := cleanup_resume w j (server p)\<rparr>"
  using assms by (simp add: proc_step_def Let_def cleanup_resume_metrics_connected)

lemma proc_step_resume_shutdown:
  assumes "exitCode (server p) = None" "teardown (server p) = AwaitShutdown"
  shows "proc_step w j Resumed p =
     p\<lparr>server := (cleanup_resume w j (server p))\<lparr>exitCode := exit_after p\<rparr>\<rparr>"
  using assms by (simp add: proc_step_def Let_def cleanup_resume_shutdown)

text \<open>The three states of the first cleanup, and the runs that reach each.\<close>

lemma run_first_then_call:
  assumes "exitCode (server p) = None" "\<not> isExiting (server p)" "isConnected (server p)"
  shows "server (proc_run w j (Called site now # Called site' now' # evs) p) =
     (site_log site' (cleanup_call now (site_error site) (site_log site (server p))))
       \<lparr>exitCode := Some (site_exit site')\<rparr>"
proof -
  let ?s1 = "cleanup_call now (site_error site) (site_log site (server p))"
  let ?p1 = "p\<lparr>server := ?s1, exit_after := Some (site_exit site)\<rparr>"
  let ?p2 = "?p1\<lparr>server := (site_log site' ?s1)\<lparr>exitCode := Some (site_exit site')\<rparr>\<rparr>"
  have f: "\<not> isExiting (site_log site (server p))" using assms by (simp add: site_log_fields)
  have a: "exitCode (server ?p1) = None" "isExiting (server ?p1)"
    using assms by (simp_all add: cleanup_call_fields [OF f] site_log_fields)
  have s1: "proc_step w j (Called site now) p = ?p1"
    by (rule proc_step_first_connected [OF assms])
  have s2: "proc_step w j (Called site' now') ?p1 = ?p2"
    using proc_step_latched [OF a, of w j site' now'] by simp
  have ex: "exitCode (server ?p2) \<noteq> None" by simp
  have "proc_run w j (Called site now # Called site' now' # evs) p = proc_run w j evs ?p2"
    by (simp only: proc_run.simps s1 s2)
  also have "\<dots> = ?p2" by (rule proc_run_exited [OF ex])
  finally show ?thesis by simp
qed

lemma run_first_resume_then_call:
  assumes "exitCode (server p) = None" "\<not> isExiting (server p)" "isConnected (server p)"
  shows "server (proc_run w j (Called site now # Resumed # Called site' now' # evs) p) =
     (site_log site'
        (cleanup_resume w j (cleanup_call now (site_error site) (site_log site (server p)))))
       \<lparr>exitCode := Some (site_exit site')\<rparr>"
proof -
  let ?s1 = "cleanup_call now (site_error site) (site_log site (server p))"
  let ?s2 = "cleanup_resume w j ?s1"
  let ?p1 = "p\<lparr>server := ?s1, exit_after := Some (site_exit site)\<rparr>"
  let ?p2 = "?p1\<lparr>server := ?s2\<rparr>"
  let ?p3 = "?p2\<lparr>server := (site_log site' ?s2)\<lparr>exitCode := Some (site_exit site')\<rparr>\<rparr>"
  have f: "\<not> isExiting (site_log site (server p))" using assms by (simp add: site_log_fields)
  have a: "exitCode (server ?p1) = None"
    "teardown (server ?p1) = AwaitMetrics
       (case site_error site of None \<Rightarrow> ''SUCCESS'' | Some e \<Rightarrow> ''FAILED'')
       (case site_error site of None \<Rightarrow> [] | Some e \<Rightarrow> message e) now"
    "isConnected (server ?p1)"
    using assms by (simp_all add: cleanup_call_fields [OF f] site_log_fields)
  have b: "exitCode (server ?p2) = None" "isExiting (server ?p2)"
    using a assms
    by (simp_all add: cleanup_resume_frame isExiting_cleanup_resume cleanup_call_fields [OF f])
  have s1: "proc_step w j (Called site now) p = ?p1"
    by (rule proc_step_first_connected [OF assms])
  have s2: "proc_step w j Resumed ?p1 = ?p2"
    using proc_step_resume_metrics [OF a, of w j] by simp
  have s3: "proc_step w j (Called site' now') ?p2 = ?p3"
    using proc_step_latched [OF b, of w j site' now'] by simp
  have ex: "exitCode (server ?p3) \<noteq> None" by simp
  have "proc_run w j (Called site now # Resumed # Called site' now' # evs) p
          = proc_run w j evs ?p3"
    by (simp only: proc_run.simps s1 s2 s3)
  also have "\<dots> = ?p3" by (rule proc_run_exited [OF ex])
  finally show ?thesis by simp
qed

lemma run_first_two_resumes:
  assumes "exitCode (server p) = None" "\<not> isExiting (server p)"
  shows "server (proc_run w j (Called site now # Resumed # Resumed # evs) p) =
     (cleanup w j now (site_error site) (site_log site (server p)))
       \<lparr>exitCode := Some (site_exit site)\<rparr>"
proof (cases "isConnected (server p)")
  case False
  let ?p1 = "p\<lparr>server := (cleanup w j now (site_error site) (site_log site (server p)))
                     \<lparr>exitCode := Some (site_exit site)\<rparr>,
       exit_after := Some (site_exit site)\<rparr>"
  have s1: "proc_step w j (Called site now) p = ?p1"
    by (rule proc_step_first_not_connected [OF assms False])
  have ex: "exitCode (server ?p1) \<noteq> None" by simp
  have "proc_run w j (Called site now # Resumed # Resumed # evs) p
          = proc_run w j (Resumed # Resumed # evs) ?p1"
    by (simp only: proc_run.simps s1)
  also have "\<dots> = ?p1" by (rule proc_run_exited [OF ex])
  finally show ?thesis by simp
next
  case True
  let ?s1 = "cleanup_call now (site_error site) (site_log site (server p))"
  let ?s2 = "cleanup_resume w j ?s1"
  let ?p1 = "p\<lparr>server := ?s1, exit_after := Some (site_exit site)\<rparr>"
  let ?p2 = "?p1\<lparr>server := ?s2\<rparr>"
  let ?p3 = "?p2\<lparr>server := (cleanup_resume w j ?s2)\<lparr>exitCode := Some (site_exit site)\<rparr>\<rparr>"
  have f: "\<not> isExiting (site_log site (server p))" using assms by (simp add: site_log_fields)
  have a: "exitCode (server ?p1) = None"
    "teardown (server ?p1) = AwaitMetrics
       (case site_error site of None \<Rightarrow> ''SUCCESS'' | Some e \<Rightarrow> ''FAILED'')
       (case site_error site of None \<Rightarrow> [] | Some e \<Rightarrow> message e) now"
    "isConnected (server ?p1)"
    using assms True by (simp_all add: cleanup_call_fields [OF f] site_log_fields)
  have b: "exitCode (server ?p2) = None" "teardown (server ?p2) = AwaitShutdown"
    using a by (simp_all add: cleanup_resume_frame cleanup_resume_metrics_connected)
  have s1: "proc_step w j (Called site now) p = ?p1"
    by (rule proc_step_first_connected [OF assms True])
  have s2: "proc_step w j Resumed ?p1 = ?p2"
    using proc_step_resume_metrics [OF a, of w j] by simp
  have s3: "proc_step w j Resumed ?p2 = ?p3"
    using proc_step_resume_shutdown [OF b, of w j] by simp
  have ex: "exitCode (server ?p3) \<noteq> None" by simp
  have "proc_run w j (Called site now # Resumed # Resumed # evs) p = proc_run w j evs ?p3"
    by (simp only: proc_run.simps s1 s2 s3)
  also have "\<dots> = ?p3" by (rule proc_run_exited [OF ex])
  finally show ?thesis using f by (simp add: cleanup_def)
qed

lemma site_log_update:
  "\<exists>xs. (\<forall>x\<in>set xs. \<not> is_step x) \<and> site_log site s = s\<lparr>effects := effects s @ xs\<rparr>"
proof (induction site s rule: site_log.induct)
  case (1 s)
  have "s = s\<lparr>effects := effects s @ []\<rparr>" by simp
  then show ?case by (metis empty_iff empty_set site_log.simps(1))
next
  case (2 err s)
  have "s = s\<lparr>effects := effects s @ []\<rparr>" by simp
  then show ?case by (metis empty_iff empty_set site_log.simps(2))
next
  case (3 s)
  show ?case
    by (rule exI [of _ "[LogInfo ''Received SIGTERM'']"]) (simp add: logger_info_def emit_def)
next
  case (4 s)
  show ?case
    by (rule exI [of _ "[LogInfo ''Received SIGINT'']"]) (simp add: logger_info_def emit_def)
next
  case (5 err s)
  show ?case
    by (rule exI [of _ "[LogError ''Uncaught exception:'' (message err)]"])
       (simp add: logger_error_def emit_def)
next
  case (6 err s)
  show ?case
    by (rule exI [of _ "[LogError ''Unhandled rejection:'' (message err)]"])
       (simp add: logger_error_def emit_def)
qed

lemma run_first_only:
  assumes "exitCode (server p) = None" "\<not> isExiting (server p)" "isConnected (server p)"
  shows "server (proc_run w j [Called site now] p) =
     cleanup_call now (site_error site) (site_log site (server p))"
  by (simp add: proc_step_first_connected [OF assms])

lemma run_first_resume_only:
  assumes "exitCode (server p) = None" "\<not> isExiting (server p)" "isConnected (server p)"
  shows "server (proc_run w j [Called site now, Resumed] p) =
     cleanup_resume w j (cleanup_call now (site_error site) (site_log site (server p)))"
proof -
  let ?s1 = "cleanup_call now (site_error site) (site_log site (server p))"
  let ?p1 = "p\<lparr>server := ?s1, exit_after := Some (site_exit site)\<rparr>"
  let ?p2 = "?p1\<lparr>server := cleanup_resume w j ?s1\<rparr>"
  have f: "\<not> isExiting (site_log site (server p))" using assms by (simp add: site_log_fields)
  have a: "exitCode (server ?p1) = None"
    "teardown (server ?p1) = AwaitMetrics
       (case site_error site of None \<Rightarrow> ''SUCCESS'' | Some e \<Rightarrow> ''FAILED'')
       (case site_error site of None \<Rightarrow> [] | Some e \<Rightarrow> message e) now"
    "isConnected (server ?p1)"
    using assms by (simp_all add: cleanup_call_fields [OF f] site_log_fields)
  have s1: "proc_step w j (Called site now) p = ?p1"
    by (rule proc_step_first_connected [OF assms])
  have s2: "proc_step w j Resumed ?p1 = ?p2"
    using proc_step_resume_metrics [OF a, of w j] by simp
  have "proc_run w j [Called site now, Resumed] p = ?p2"
    by (simp only: proc_run.simps s1 s2)
  then show ?thesis by simp
qed

lemma run_classified:
  assumes "exitCode (server p) = None" "\<not> isExiting (server p)"
  shows "\<exists>t xs c.
     (t = cleanup_call now (site_error site) (site_log site (server p))
      \<or> t = cleanup_resume w j (cleanup_call now (site_error site) (site_log site (server p)))
      \<or> t = cleanup w j now (site_error site) (site_log site (server p)))
     \<and> (\<forall>x\<in>set xs. \<not> is_step x)
     \<and> server (proc_run w j (Called site now # evs) p) =
         t\<lparr>effects := effects t @ xs, exitCode := c\<rparr>"
proof -
  let ?s1 = "cleanup_call now (site_error site) (site_log site (server p))"
  let ?s2 = "cleanup_resume w j ?s1"
  let ?s3 = "cleanup w j now (site_error site) (site_log site (server p))"
  let ?run = "server (proc_run w j (Called site now # evs) p)"
  have plain: "\<And>t. t = t\<lparr>effects := effects t @ [], exitCode := exitCode t\<rparr>" by simp
  have exited: "\<And>t c. t\<lparr>exitCode := c\<rparr> = t\<lparr>effects := effects t @ [], exitCode := c\<rparr>" by simp
  have logged_exit: "\<And>site' t c. \<exists>xs. (\<forall>x\<in>set xs. \<not> is_step x)
        \<and> (site_log site' t)\<lparr>exitCode := c\<rparr> = t\<lparr>effects := effects t @ xs, exitCode := c\<rparr>"
  proof -
    fix site' t c
    obtain xs where "\<forall>x\<in>set xs. \<not> is_step x" "site_log site' t = t\<lparr>effects := effects t @ xs\<rparr>"
      using site_log_update by blast
    then show "\<exists>xs. (\<forall>x\<in>set xs. \<not> is_step x)
        \<and> (site_log site' t)\<lparr>exitCode := c\<rparr> = t\<lparr>effects := effects t @ xs, exitCode := c\<rparr>"
      by (intro exI [of _ xs]) simp
  qed
  show ?thesis
  proof (cases "isConnected (server p)")
    case False
    let ?p1 = "p\<lparr>server := ?s3\<lparr>exitCode := Some (site_exit site)\<rparr>,
       exit_after := Some (site_exit site)\<rparr>"
    have s1: "proc_step w j (Called site now) p = ?p1"
      by (rule proc_step_first_not_connected [OF assms False])
    have ex: "exitCode (server ?p1) \<noteq> None" by simp
    have "proc_run w j (Called site now # evs) p = proc_run w j evs ?p1"
      by (simp only: proc_run.simps s1)
    also have "\<dots> = ?p1" by (rule proc_run_exited [OF ex])
    finally have "?run = ?s3\<lparr>exitCode := Some (site_exit site)\<rparr>" by simp
    then have "?run = ?s3\<lparr>effects := effects ?s3 @ [], exitCode := Some (site_exit site)\<rparr>"
      using exited by simp
    then show ?thesis by (intro exI [of _ ?s3] exI [of _ "[]"] exI [of _ "Some (site_exit site)"]) simp
  next
    case True
    show ?thesis
    proof (cases evs)
      case Nil
      then have "?run = ?s1" using run_first_only [OF assms True] by simp
      then have "?run = ?s1\<lparr>effects := effects ?s1 @ [], exitCode := exitCode ?s1\<rparr>"
        using plain [of ?s1] by simp
      then show ?thesis
        by (intro exI [of _ ?s1] exI [of _ "[]"] exI [of _ "exitCode ?s1"]) simp
    next
      case (Cons ev rest)
      show ?thesis
      proof (cases ev)
        case (Called site' now')
        then have r: "?run = (site_log site' ?s1)\<lparr>exitCode := Some (site_exit site')\<rparr>"
          using Cons run_first_then_call [OF assms True] by simp
        obtain xs where "\<forall>x\<in>set xs. \<not> is_step x"
          "(site_log site' ?s1)\<lparr>exitCode := Some (site_exit site')\<rparr>
             = ?s1\<lparr>effects := effects ?s1 @ xs, exitCode := Some (site_exit site')\<rparr>"
          using logged_exit by blast
        with r show ?thesis
          by (intro exI [of _ ?s1] exI [of _ xs] exI [of _ "Some (site_exit site')"]) simp
      next
        case Resumed
        show ?thesis
        proof (cases rest)
          case Nil
          then have "?run = ?s2" using Cons Resumed run_first_resume_only [OF assms True] by simp
          then have "?run = ?s2\<lparr>effects := effects ?s2 @ [], exitCode := exitCode ?s2\<rparr>"
            using plain [of ?s2] by simp
          then show ?thesis
            by (intro exI [of _ ?s2] exI [of _ "[]"] exI [of _ "exitCode ?s2"]) simp
        next
          case (Cons ev2 rest2)
          show ?thesis
          proof (cases ev2)
            case (Called site' now')
            then have r: "?run = (site_log site' ?s2)\<lparr>exitCode := Some (site_exit site')\<rparr>"
              using \<open>evs = ev # rest\<close> Resumed Cons run_first_resume_then_call [OF assms True]
              by simp
            obtain xs where "\<forall>x\<in>set xs. \<not> is_step x"
              "(site_log site' ?s2)\<lparr>exitCode := Some (site_exit site')\<rparr>
                 = ?s2\<lparr>effects := effects ?s2 @ xs, exitCode := Some (site_exit site')\<rparr>"
              using logged_exit by blast
            with r show ?thesis
              by (intro exI [of _ ?s2] exI [of _ xs] exI [of _ "Some (site_exit site')"]) simp
          next
            case Resumed2: Resumed
            have "?run = ?s3\<lparr>exitCode := Some (site_exit site)\<rparr>"
              using \<open>evs = ev # rest\<close> Resumed Cons Resumed2 run_first_two_resumes [OF assms]
              by simp
            then have "?run = ?s3\<lparr>effects := effects ?s3 @ [], exitCode := Some (site_exit site)\<rparr>"
              using exited by simp
            then show ?thesis
              by (intro exI [of _ ?s3] exI [of _ "[]"] exI [of _ "Some (site_exit site)"]) simp
          qed
        qed
      qed
    qed
  qed
qed


lemma three_states_metrics:
  assumes "\<not> isExiting s0"
    and "t = cleanup_call now err s0 \<or> t = cleanup_resume w j (cleanup_call now err s0)
         \<or> t = cleanup w j now err s0"
  shows "metrics_of (effects t) = metrics_of (effects s0)
     \<or> metrics_of (effects t) = metrics_of (effects s0) @
          [\<lparr>m_deployment_id = deploymentId j, m_project_uri = projectUri j,
            m_start_time = buildStartTime s0, m_end_time = now,
            m_duration_seconds =
              (now - (case buildStartTime s0 of None \<Rightarrow> 0 | Some t \<Rightarrow> t)) div 1000,
            m_status = (case err of None \<Rightarrow> ''SUCCESS'' | Some e \<Rightarrow> ''FAILED''),
            m_error_message = (case err of None \<Rightarrow> [] | Some e \<Rightarrow> message e)\<rparr>]"
proof -
  let ?s1 = "cleanup_call now err s0"
  let ?s2 = "cleanup_resume w j ?s1"
  note cf = cleanup_call_fields [OF assms(1), of now err]
  have m1: "metrics_of (effects ?s1) = metrics_of (effects s0)"
    by (simp add: cf metrics_of_append)
  show ?thesis
  proof (cases "isConnected s0")
    case True
    have m2: "metrics_of (effects ?s2) = metrics_of (effects s0) @
          [\<lparr>m_deployment_id = deploymentId j, m_project_uri = projectUri j,
            m_start_time = buildStartTime s0, m_end_time = now,
            m_duration_seconds =
              (now - (case buildStartTime s0 of None \<Rightarrow> 0 | Some t \<Rightarrow> t)) div 1000,
            m_status = (case err of None \<Rightarrow> ''SUCCESS'' | Some e \<Rightarrow> ''FAILED''),
            m_error_message = (case err of None \<Rightarrow> [] | Some e \<Rightarrow> message e)\<rparr>]"
      using True
      by (simp add: cleanup_resume_metrics_connected [OF cf(5)] cf metrics_of_append logged_def
          split: option.split)
    have t2: "teardown ?s2 = AwaitShutdown"
      using True by (simp add: cleanup_resume_metrics_connected [OF cf(5)] cf)
    have m3: "metrics_of (effects (cleanup w j now err s0)) = metrics_of (effects ?s2)"
      using assms(1) by (simp add: cleanup_def cleanup_resume_no_metrics_at_shutdown [OF t2])
    from assms(2) show ?thesis using m1 m2 m3 by auto
  next
    case False
    have m2: "metrics_of (effects ?s2) = metrics_of (effects s0)"
      using False
      by (simp add: cleanup_resume_metrics_not_connected [OF cf(5)] cf metrics_of_append)
    have m3: "metrics_of (effects (cleanup w j now err s0)) = metrics_of (effects s0)"
      by (simp add: cleanup_not_connected(1) [OF assms(1) False] metrics_of_append)
    from assms(2) show ?thesis using m1 m2 m3 by auto
  qed
qed

lemma three_states_kill:
  assumes "\<not> isExiting s0" "buildProcess s0 = Some False"
    and "t = cleanup_call now err s0 \<or> t = cleanup_resume w j (cleanup_call now err s0)
         \<or> t = cleanup w j now err s0"
  shows "Kill \<in> set (effects t) \<and> buildProcess t = Some True"
proof -
  let ?s1 = "cleanup_call now err s0"
  let ?s2 = "cleanup_resume w j ?s1"
  let ?s3 = "cleanup_resume w j ?s2"
  note cf = cleanup_call_fields [OF assms(1), of now err]
  obtain ys where ys: "effects ?s2 = effects ?s1 @ ys" using cleanup_resume_grows by blast
  obtain zs where zs: "effects ?s3 = effects ?s2 @ zs" using cleanup_resume_grows by blast
  have c: "cleanup w j now err s0 = ?s3" using assms(1) by (simp add: cleanup_def)
  have k1: "Kill \<in> set (effects ?s1)" "buildProcess ?s1 = Some True"
    using assms(2) by (simp_all add: cf)
  from assms(3) show ?thesis
    unfolding c using k1 by (auto simp: ys zs cleanup_resume_frame)
qed

lemma running_process_facts:
  "exitCode (server running_process) = None" "\<not> isExiting (server running_process)"
  "isConnected (server running_process)"
  by (simp_all add: running_process_def running_state_def)




text \<open>
  C10, as stated, fails in the case it names. SIGTERM arrives while the build runs;
  the handler's \<^verbatim>\<open>cleanup\<close> kills the subprocess and records the metrics. The
  killed subprocess closes with code \<^verbatim>\<open>null\<close>, the promise of
  \<^verbatim>\<open>executeBuildProcess\<close> rejects, and the \<^verbatim>\<open>catch\<close> of \<^verbatim>\<open>runBuild\<close> calls
  \<^verbatim>\<open>cleanup(error)\<close>, which finds the latch, and \<^verbatim>\<open>process.exit(1)\<close>: the
  process exits with code 1, with \<^verbatim>\<open>SUCCESS\<close> in its metrics row.
\<close>

theorem signal_while_building_can_exit_1:
  "outcome (exec_run job1 (chunks1 @ [Close None]) executeBuildProcess_start)
     = Rejected (exit_error None ''warn: aerr: b'')
   \<and> exitCode (server (proc_run no_failures job1
        [Called (Handler SIGTERM) 6000, Resumed,
         Called (CaughtError (exit_error None ''warn: aerr: b'')) 6001, Resumed]
        running_process)) = Some 1
   \<and> metrics_of (effects (server (proc_run no_failures job1
        [Called (Handler SIGTERM) 6000, Resumed,
         Called (CaughtError (exit_error None ''warn: aerr: b'')) 6001, Resumed]
        running_process)))
      = [\<lparr>m_deployment_id = ''d1'', m_project_uri = ''p1'',
          m_start_time = Some 1000, m_end_time = 6000, m_duration_seconds = 5,
          m_status = ''SUCCESS'', m_error_message = []\<rparr>]"
proof -
  have c: "list_all is_data chunks1" by (simp add: chunks1_def)
  have o: "outcome (exec_run job1 (chunks1 @ [Close None]) executeBuildProcess_start)
     = Rejected (exit_error None ''warn: aerr: b'')"
    by (simp add: exec_run_append exec_run_data [OF c] executeBuildProcess_start_def)
       (simp add: chunks1_def)
  have r: "server (proc_run no_failures job1
        [Called (Handler SIGTERM) 6000, Resumed,
         Called (CaughtError (exit_error None ''warn: aerr: b'')) 6001, Resumed]
        running_process) =
     (site_log (CaughtError (exit_error None ''warn: aerr: b''))
        (cleanup_resume no_failures job1
           (cleanup_call 6000 (site_error (Handler SIGTERM))
              (site_log (Handler SIGTERM) (server running_process)))))
       \<lparr>exitCode := Some (site_exit (CaughtError (exit_error None ''warn: aerr: b'')))\<rparr>"
    by (rule run_first_resume_then_call [OF running_process_facts])
  let ?s0 = "site_log (Handler SIGTERM) (server running_process)"
  let ?s1 = "cleanup_call 6000 (site_error (Handler SIGTERM)) ?s0"
  have f: "\<not> isExiting ?s0"
    by (simp only: site_log_fields running_process_facts simp_thms)
  note cf = cleanup_call_fields [OF f, of 6000 "site_error (Handler SIGTERM)"]
  have t1: "teardown ?s1 = AwaitMetrics ''SUCCESS'' [] 6000" using cf(5) by simp
  have c1: "isConnected ?s1" by (simp only: cf(2) site_log_fields running_process_facts)
  have m: "metrics_of (effects (cleanup_resume no_failures job1 ?s1))
      = [\<lparr>m_deployment_id = ''d1'', m_project_uri = ''p1'',
          m_start_time = Some 1000, m_end_time = 6000, m_duration_seconds = 5,
          m_status = ''SUCCESS'', m_error_message = []\<rparr>]"
    by (simp add: running_process_def running_state_def cleanup_call_def cleanup_resume_def
        recordBuildMetrics_def emit_def logger_info_def Let_def no_failures_def job1_def)
  have x: "exitCode (server (proc_run no_failures job1
        [Called (Handler SIGTERM) 6000, Resumed,
         Called (CaughtError (exit_error None ''warn: aerr: b'')) 6001, Resumed]
        running_process)) = Some 1"
    by (simp only: r) simp
  have y: "metrics_of (effects (server (proc_run no_failures job1
        [Called (Handler SIGTERM) 6000, Resumed,
         Called (CaughtError (exit_error None ''warn: aerr: b'')) 6001, Resumed]
        running_process)))
      = [\<lparr>m_deployment_id = ''d1'', m_project_uri = ''p1'',
          m_start_time = Some 1000, m_end_time = 6000, m_duration_seconds = 5,
          m_status = ''SUCCESS'', m_error_message = []\<rparr>]"
    by (simp only: r) (use m in simp)
  show ?thesis using o x y by (intro conjI)
qed

text \<open>
  C10, amended. A signal that finds the latch set exits with code 0 at once. When
  SIGTERM or SIGINT is the first trigger, \<^verbatim>\<open>cleanup\<close> is called without an
  error: whatever follows, the only metrics row that can be recorded has status
  \<^verbatim>\<open>SUCCESS\<close> and an empty error message, and a build process still running is
  killed. The process exits with code 0, the row recorded when ClickHouse is
  connected, if the handler's cleanup is resumed to its end before another trigger
  arrives; if another call site is reached while it is suspended, the process exits
  with that site's code.
\<close>

theorem signal_shutdown_outcome:
  assumes "exitCode (server p) = None" and "sig = SIGTERM \<or> sig = SIGINT"
  shows "(isExiting (server p) \<longrightarrow>
            server (proc_run w j (Called (Handler sig) now # evs) p)
              = (site_log (Handler sig) (server p))\<lparr>exitCode := Some 0\<rparr>)
   \<and> (\<not> isExiting (server p) \<longrightarrow>
        (metrics_of (effects (server (proc_run w j (Called (Handler sig) now # evs) p)))
           = metrics_of (effects (server p))
         \<or> metrics_of (effects (server (proc_run w j (Called (Handler sig) now # evs) p)))
           = metrics_of (effects (server p)) @
             [\<lparr>m_deployment_id = deploymentId j, m_project_uri = projectUri j,
               m_start_time = buildStartTime (server p), m_end_time = now,
               m_duration_seconds =
                 (now - (case buildStartTime (server p) of None \<Rightarrow> 0 | Some t \<Rightarrow> t)) div 1000,
               m_status = ''SUCCESS'', m_error_message = []\<rparr>])
        \<and> (buildProcess (server p) = Some False \<longrightarrow>
              Kill \<in> set (effects (server (proc_run w j (Called (Handler sig) now # evs) p)))
              \<and> buildProcess (server (proc_run w j (Called (Handler sig) now # evs) p))
                  = Some True)
        \<and> exitCode (server (proc_run w j (Called (Handler sig) now # Resumed # Resumed # evs) p))
            = Some 0
        \<and> metrics_of (effects
             (server (proc_run w j (Called (Handler sig) now # Resumed # Resumed # evs) p)))
            = metrics_of (effects (server p)) @
              (if isConnected (server p)
               then [\<lparr>m_deployment_id = deploymentId j, m_project_uri = projectUri j,
                      m_start_time = buildStartTime (server p), m_end_time = now,
                      m_duration_seconds =
                        (now - (case buildStartTime (server p) of None \<Rightarrow> 0 | Some t \<Rightarrow> t))
                          div 1000,
                      m_status = ''SUCCESS'', m_error_message = []\<rparr>]
               else [])
        \<and> (isConnected (server p) \<longrightarrow>
              exitCode (server (proc_run w j
                  (Called (Handler sig) now # Called site' now' # evs) p))
                = Some (site_exit site')
              \<and> exitCode (server (proc_run w j
                  (Called (Handler sig) now # Resumed # Called site' now' # evs) p))
                = Some (site_exit site')))"
proof -
  let ?site = "Handler sig"
  let ?s0 = "site_log ?site (server p)"
  have se: "site_error ?site = None" "site_exit ?site = 0" using assms(2) by auto
  have latched: "server (proc_run w j (Called ?site now # evs) p)
              = ?s0\<lparr>exitCode := Some 0\<rparr>"
    if l: "isExiting (server p)"
  proof -
    let ?p1 = "p\<lparr>server := ?s0\<lparr>exitCode := Some (site_exit ?site)\<rparr>\<rparr>"
    have s1: "proc_step w j (Called ?site now) p = ?p1"
      by (rule proc_step_latched [OF assms(1) l])
    have ex: "exitCode (server ?p1) \<noteq> None" by simp
    have "proc_run w j (Called ?site now # evs) p = proc_run w j evs ?p1"
      by (simp only: proc_run.simps s1)
    also have "\<dots> = ?p1" by (rule proc_run_exited [OF ex])
    finally show ?thesis by (simp add: se)
  qed
  have first: "(metrics_of (effects (server (proc_run w j (Called ?site now # evs) p)))
           = metrics_of (effects (server p))
         \<or> metrics_of (effects (server (proc_run w j (Called ?site now # evs) p)))
           = metrics_of (effects (server p)) @
             [\<lparr>m_deployment_id = deploymentId j, m_project_uri = projectUri j,
               m_start_time = buildStartTime (server p), m_end_time = now,
               m_duration_seconds =
                 (now - (case buildStartTime (server p) of None \<Rightarrow> 0 | Some t \<Rightarrow> t)) div 1000,
               m_status = ''SUCCESS'', m_error_message = []\<rparr>])
        \<and> (buildProcess (server p) = Some False \<longrightarrow>
              Kill \<in> set (effects (server (proc_run w j (Called ?site now # evs) p)))
              \<and> buildProcess (server (proc_run w j (Called ?site now # evs) p)) = Some True)
        \<and> exitCode (server (proc_run w j (Called ?site now # Resumed # Resumed # evs) p))
            = Some 0
        \<and> metrics_of (effects
             (server (proc_run w j (Called ?site now # Resumed # Resumed # evs) p)))
            = metrics_of (effects (server p)) @
              (if isConnected (server p)
               then [\<lparr>m_deployment_id = deploymentId j, m_project_uri = projectUri j,
                      m_start_time = buildStartTime (server p), m_end_time = now,
                      m_duration_seconds =
                        (now - (case buildStartTime (server p) of None \<Rightarrow> 0 | Some t \<Rightarrow> t))
                          div 1000,
                      m_status = ''SUCCESS'', m_error_message = []\<rparr>]
               else [])
        \<and> (isConnected (server p) \<longrightarrow>
              exitCode (server (proc_run w j (Called ?site now # Called site' now' # evs) p))
                = Some (site_exit site')
              \<and> exitCode (server (proc_run w j
                  (Called ?site now # Resumed # Called site' now' # evs) p))
                = Some (site_exit site'))"
    if n: "\<not> isExiting (server p)"
  proof -
    have f: "\<not> isExiting ?s0" using n by (simp add: site_log_fields)
    obtain t xs c where
      t: "t = cleanup_call now (site_error ?site) ?s0
          \<or> t = cleanup_resume w j (cleanup_call now (site_error ?site) ?s0)
          \<or> t = cleanup w j now (site_error ?site) ?s0"
      and xs: "\<forall>x\<in>set xs. \<not> is_step x"
      and run: "server (proc_run w j (Called ?site now # evs) p)
                  = t\<lparr>effects := effects t @ xs, exitCode := c\<rparr>"
      using run_classified [OF assms(1) n, of now ?site w j evs] by blast
    have me: "metrics_of (effects (server (proc_run w j (Called ?site now # evs) p)))
                = metrics_of (effects t)"
      using xs by (simp only: run) (simp add: metrics_of_append metrics_of_no_step)
    have a: "metrics_of (effects (server (proc_run w j (Called ?site now # evs) p)))
           = metrics_of (effects (server p))
         \<or> metrics_of (effects (server (proc_run w j (Called ?site now # evs) p)))
           = metrics_of (effects (server p)) @
             [\<lparr>m_deployment_id = deploymentId j, m_project_uri = projectUri j,
               m_start_time = buildStartTime (server p), m_end_time = now,
               m_duration_seconds =
                 (now - (case buildStartTime (server p) of None \<Rightarrow> 0 | Some t \<Rightarrow> t)) div 1000,
               m_status = ''SUCCESS'', m_error_message = []\<rparr>]"
    proof -
      from three_states_metrics [OF f t]
      have "metrics_of (effects t) = metrics_of (effects (server p))
         \<or> metrics_of (effects t) = metrics_of (effects (server p)) @
             [\<lparr>m_deployment_id = deploymentId j, m_project_uri = projectUri j,
               m_start_time = buildStartTime (server p), m_end_time = now,
               m_duration_seconds =
                 (now - (case buildStartTime (server p) of None \<Rightarrow> 0 | Some t \<Rightarrow> t)) div 1000,
               m_status = ''SUCCESS'', m_error_message = []\<rparr>]"
        by (simp add: se metrics_site_log site_log_fields)
      then show ?thesis by (simp only: me)
    qed
    have b: "Kill \<in> set (effects (server (proc_run w j (Called ?site now # evs) p)))
              \<and> buildProcess (server (proc_run w j (Called ?site now # evs) p)) = Some True"
      if bp: "buildProcess (server p) = Some False"
    proof -
      have "buildProcess ?s0 = Some False" using bp by (simp add: site_log_fields)
      from three_states_kill [OF f this t] show ?thesis by (simp only: run) simp
    qed
    have full: "server (proc_run w j (Called ?site now # Resumed # Resumed # evs) p)
       = (cleanup w j now (site_error ?site) ?s0)\<lparr>exitCode := Some (site_exit ?site)\<rparr>"
      by (rule run_first_two_resumes [OF assms(1) n])
    have c0: "exitCode (server (proc_run w j (Called ?site now # Resumed # Resumed # evs) p))
            = Some 0"
      by (simp only: full) (simp add: se)
    have d: "metrics_of (effects
             (server (proc_run w j (Called ?site now # Resumed # Resumed # evs) p)))
            = metrics_of (effects (server p)) @
              (if isConnected (server p)
               then [\<lparr>m_deployment_id = deploymentId j, m_project_uri = projectUri j,
                      m_start_time = buildStartTime (server p), m_end_time = now,
                      m_duration_seconds =
                        (now - (case buildStartTime (server p) of None \<Rightarrow> 0 | Some t \<Rightarrow> t))
                          div 1000,
                      m_status = ''SUCCESS'', m_error_message = []\<rparr>]
               else [])"
    proof (cases "isConnected (server p)")
      case True
      then have c: "isConnected ?s0" by (simp add: site_log_fields)
      show ?thesis
        using True
        by (simp only: full)
           (simp add: se cleanup_connected(1) [OF f c] metrics_of_append logged_def
              metrics_site_log site_log_fields split: option.split)
    next
      case False
      then have c: "\<not> isConnected ?s0" by (simp add: site_log_fields)
      show ?thesis
        using False
        by (simp only: full)
           (simp add: se cleanup_not_connected(1) [OF f c] metrics_of_append metrics_site_log)
    qed
    have e: "exitCode (server (proc_run w j (Called ?site now # Called site' now' # evs) p))
                = Some (site_exit site')
              \<and> exitCode (server (proc_run w j
                  (Called ?site now # Resumed # Called site' now' # evs) p))
                = Some (site_exit site')"
      if co: "isConnected (server p)"
      by (simp only: run_first_then_call [OF assms(1) n co]
          run_first_resume_then_call [OF assms(1) n co]) simp
    show ?thesis using a b c0 d e by blast
  qed
  show ?thesis using latched first by blast
qed

theorem signal_shutdown_outcome_witness:
  "exitCode (server running_process) = None \<and> \<not> isExiting (server running_process)
   \<and> isConnected (server running_process)
   \<and> buildProcess (server running_process) = Some False
   \<and> exitCode (server (proc_run no_failures job1
        [Called (Handler SIGTERM) 6000, Resumed, Resumed] running_process)) = Some 0
   \<and> metrics_of (effects (server (proc_run no_failures job1
        [Called (Handler SIGTERM) 6000, Resumed, Resumed] running_process)))
      = [\<lparr>m_deployment_id = ''d1'', m_project_uri = ''p1'',
          m_start_time = Some 1000, m_end_time = 6000, m_duration_seconds = 5,
          m_status = ''SUCCESS'', m_error_message = []\<rparr>]
   \<and> Kill \<in> set (effects (server (proc_run no_failures job1
        [Called (Handler SIGTERM) 6000, Resumed, Resumed] running_process)))
   \<and> buildProcess (server (proc_run no_failures job1
        [Called (Handler SIGTERM) 6000, Resumed, Resumed] running_process)) = Some True
   \<and> exitCode (server (proc_run no_failures job1
        [Called (Handler SIGTERM) 6000, Resumed, Called (CaughtError (Error ''killed'')) 6001]
        running_process)) = Some 1"
proof -
  note h = running_process_facts
  have bp: "buildProcess (server running_process) = Some False"
    by (simp add: running_process_def running_state_def)
  have st: "buildStartTime (server running_process) = Some 1000"
    "metrics_of (effects (server running_process)) = []"
    "deploymentId job1 = ''d1''" "projectUri job1 = ''p1''"
    by (simp_all add: running_process_def running_state_def job1_def)
  note T1 = signal_shutdown_outcome [OF h(1), of SIGTERM no_failures job1 6000
      "[Resumed, Resumed]" "CaughtError (Error ''killed'')" 6001]
  note T2 = signal_shutdown_outcome [OF h(1), of SIGTERM no_failures job1 6000
      "[]" "CaughtError (Error ''killed'')" 6001]
  from T2 h have a: "exitCode (server (proc_run no_failures job1
        [Called (Handler SIGTERM) 6000, Resumed, Resumed] running_process)) = Some 0"
    by blast
  from T2 h have b: "metrics_of (effects (server (proc_run no_failures job1
        [Called (Handler SIGTERM) 6000, Resumed, Resumed] running_process)))
      = metrics_of (effects (server running_process)) @
         (if isConnected (server running_process)
          then [\<lparr>m_deployment_id = deploymentId job1, m_project_uri = projectUri job1,
                 m_start_time = buildStartTime (server running_process), m_end_time = 6000,
                 m_duration_seconds =
                   (6000 - (case buildStartTime (server running_process) of None \<Rightarrow> 0 | Some t \<Rightarrow> t))
                     div 1000,
                 m_status = ''SUCCESS'', m_error_message = []\<rparr>]
          else [])"
    by blast
  have b': "metrics_of (effects (server (proc_run no_failures job1
        [Called (Handler SIGTERM) 6000, Resumed, Resumed] running_process)))
      = [\<lparr>m_deployment_id = ''d1'', m_project_uri = ''p1'',
          m_start_time = Some 1000, m_end_time = 6000, m_duration_seconds = 5,
          m_status = ''SUCCESS'', m_error_message = []\<rparr>]"
    by (simp only: b st h) simp
  from T1 h bp have k: "Kill \<in> set (effects (server (proc_run no_failures job1
        [Called (Handler SIGTERM) 6000, Resumed, Resumed] running_process)))
      \<and> buildProcess (server (proc_run no_failures job1
        [Called (Handler SIGTERM) 6000, Resumed, Resumed] running_process)) = Some True"
    by blast
  from T2 h have e: "exitCode (server (proc_run no_failures job1
        [Called (Handler SIGTERM) 6000, Resumed, Called (CaughtError (Error ''killed'')) 6001]
        running_process)) = Some (site_exit (CaughtError (Error ''killed'')))"
    by blast
  have e': "exitCode (server (proc_run no_failures job1
        [Called (Handler SIGTERM) 6000, Resumed, Called (CaughtError (Error ''killed'')) 6001]
        running_process)) = Some 1"
    by (simp only: e site_exit.simps)
  show ?thesis using h bp a b' k e' by (intro conjI) blast+
qed

end
